theory Spec2Isabelle
  imports Complex_Main "HOL-Library.Sublist"
begin

section \<open>JavaScript values\<close>

text \<open>
  The catch branches of the screens receive \<open>error: any\<close>: whatever the response
  interceptor rejected with, a parsed JSON body or the Axios error object. Such values are
  modelled by a small universe of JavaScript values. Numbers are integers here: only their
  identity (\<open>=== 422\<close>) and their truthiness are ever inspected.
\<close>

datatype jsval =
    JUndefined
  | JNull
  | JBool bool
  | JNum int
  | JStr string
  | JArr "jsval list"
  | JObj "(string \<times> jsval) list"

text \<open>JavaScript truthiness, as used by \<open>||\<close>, \<open>!\<close> and \<open>if\<close>.\<close>

fun truthy :: "jsval \<Rightarrow> bool" where
  "truthy JUndefined = False"
| "truthy JNull = False"
| "truthy (JBool b) = b"
| "truthy (JNum n) = (n \<noteq> 0)"
| "truthy (JStr s) = (s \<noteq> [])"
| "truthy (JArr xs) = True"
| "truthy (JObj kvs) = True"

text \<open>
  Optional property access \<open>v?.k\<close>. A missing property and a nullish receiver both give
  \<open>undefined\<close>. Only the names \<open>response\<close>, \<open>status\<close>, \<open>data\<close>, \<open>detail\<close> and
  \<open>message\<close> are ever looked up, none of which is a built-in property of a string, an
  array, a number or a boolean.
\<close>

fun get_prop :: "jsval \<Rightarrow> string \<Rightarrow> jsval" where
  "get_prop (JObj kvs) k = (case map_of kvs k of Some v \<Rightarrow> v | None \<Rightarrow> JUndefined)"
| "get_prop v k = JUndefined"

text \<open>The operator \<open>a || b\<close>.\<close>

definition js_or :: "jsval \<Rightarrow> jsval \<Rightarrow> jsval" where
  "js_or a b = (if truthy a then a else b)"

text \<open>\<open>String.prototype.includes\<close>: the needle occurs as a contiguous substring.\<close>

fun str_includes :: "string \<Rightarrow> string \<Rightarrow> bool" where
  "str_includes [] needle = (needle = [])"
| "str_includes (c # cs) needle = (prefix needle (c # cs) \<or> str_includes cs needle)"

text \<open>
  The call \<open>v?.includes(s)\<close> on a value of unknown type: a nullish receiver short-circuits
  to \<open>undefined\<close> (falsy), a string searches for a substring, an array for an element, and
  any other receiver has no \<open>includes\<close> method, so the call throws a \<open>TypeError\<close>
  (\<open>None\<close>).
\<close>

fun opt_includes :: "jsval \<Rightarrow> string \<Rightarrow> bool option" where
  "opt_includes JUndefined s = Some False"
| "opt_includes JNull s = Some False"
| "opt_includes (JStr t) s = Some (str_includes t s)"
| "opt_includes (JArr xs) s = Some (JStr s \<in> set xs)"
| "opt_includes v s = None"


section \<open>Types of the frontend (\<open>types/index.ts\<close>)\<close>

datatype gender = Male | Female | Other
datatype diet = Veg | Egg | NonVeg
datatype goal = WeightLoss | WeightGain | Balanced
datatype condition = NoCondition | Diabetes | BP | Acidity
datatype level = Low | Medium | High

record suitability =
  bmi_categories :: "string list"
  medical_conditions :: "string list"

record menu_item =
  item_id :: string
  item_name :: string
  calories :: real
  spice_level :: level
  oil_level :: level
  mi_diet_type :: diet
  image_url :: "string option"
  suitable_for :: suitability

record suggestion_response =
  health_summary :: string
  bmi_category :: string
  suggested_item :: string
  suggested_item_details :: "menu_item option"
  similar_items :: "menu_item list"
  reason :: string

text \<open>
  \<open>Partial<UserData>\<close>, the content of the user context: every property may be absent.
\<close>

record user_data =
  ud_name :: "string option"
  ud_phone_number :: "string option"
  ud_age :: "real option"
  ud_email :: "string option"
  ud_gender :: "gender option"
  ud_height_cm :: "real option"
  ud_weight_kg :: "real option"
  ud_diet_type :: "diet option"
  ud_health_goal :: "goal option"
  ud_medical_condition :: "condition option"
  ud_spice_tolerance :: "level option"

record guest_session =
  session_id :: string
  expires_at :: string
  session_message :: string

text \<open>\<open>Partial<GuestData>\<close> (the form state) and the complete \<open>GuestData\<close>.\<close>

record guest_partial =
  gp_age :: "real option"
  gp_gender :: "gender option"
  gp_height_cm :: "real option"
  gp_weight_kg :: "real option"
  gp_diet_type :: "diet option"
  gp_health_goal :: "goal option"
  gp_medical_condition :: "condition option"
  gp_spice_tolerance :: "level option"

record guest_data =
  gd_age :: real
  gd_gender :: gender
  gd_height_cm :: real
  gd_weight_kg :: real
  gd_diet_type :: diet
  gd_health_goal :: goal
  gd_medical_condition :: condition
  gd_spice_tolerance :: level

record guest_suggestion_request =
  req_session_id :: string
  req_health_data :: guest_data


section \<open>The API service (\<open>services/api.ts\<close>)\<close>

text \<open>
  What Axios hands to the error handler of the response interceptor: an error with an
  optional code, a message, and the response when the server answered at all.
\<close>

record http_response =
  status :: nat
  data :: jsval

record axios_error =
  err_code :: "string option"
  err_message :: string
  err_response :: "http_response option"

text \<open>The same error seen as a plain JavaScript object by a catch branch.\<close>

definition error_object :: "axios_error \<Rightarrow> jsval" where
  "error_object e = JObj
     [(''code'', case err_code e of None \<Rightarrow> JUndefined | Some c \<Rightarrow> JStr c),
      (''message'', JStr (err_message e)),
      (''response'', case err_response e of
          None \<Rightarrow> JUndefined
        | Some r \<Rightarrow> JObj [(''status'', JNum (int (status r))), (''data'', data r)])]"

text \<open>The literal the interceptor resolves with on a timeout.\<close>

definition timeout_fallback :: suggestion_response where
  "timeout_fallback = \<lparr>
     health_summary = ''Your BMI is normal. Using safe recommendation due to timeout.'',
     bmi_category = ''normal'',
     suggested_item = ''Plain Idli'',
     suggested_item_details = None,
     similar_items = [],
     reason = ''Safe, low-calorie option suitable for your health profile.'' \<rparr>"

definition is_timeout :: "axios_error \<Rightarrow> bool" where
  "is_timeout e \<longleftrightarrow>
     err_code e = Some ''ECONNABORTED'' \<or> str_includes (err_message e) ''timeout''"

text \<open>
  The error handler of the response interceptor: a timeout resolves with the fallback
  (\<open>Inr\<close>), anything else rejects with \<open>error.response?.data || error\<close> (\<open>Inl\<close>).
\<close>

definition response_interceptor :: "axios_error \<Rightarrow> jsval + suggestion_response" where
  "response_interceptor e =
     (if is_timeout e then Inr timeout_fallback
      else Inl (case err_response e of
                  None \<Rightarrow> error_object e
                | Some r \<Rightarrow> if truthy (data r) then data r else error_object e))"

text \<open>
  The network's answer to a request: a 2xx response carrying a suggestion, or a failure.
  \<open>getSuggestion\<close> and \<open>getGuestSuggestion\<close> post the request and return
  \<open>response.data\<close>; a failure goes through the interceptor.
\<close>

datatype http_outcome = HttpOk suggestion_response | HttpFail axios_error

definition getSuggestion :: "http_outcome \<Rightarrow> jsval + suggestion_response" where
  "getSuggestion net = (case net of HttpOk r \<Rightarrow> Inr r | HttpFail e \<Rightarrow> response_interceptor e)"

definition getGuestSuggestion :: "http_outcome \<Rightarrow> jsval + suggestion_response" where
  "getGuestSuggestion net = (case net of HttpOk r \<Rightarrow> Inr r | HttpFail e \<Rightarrow> response_interceptor e)"


section \<open>What a screen does\<close>

text \<open>
  The effects of a handler that the user or the backend can observe, in program order.
  Console logging is left out.
\<close>

datatype ui_effect =
    MessageError jsval
  | MessageErrorPrefixed jsval
  | Navigate string
  | NavigateRecommendation suggestion_response
  | ApiGetSuggestion user_data
  | ApiGuestSuggestion guest_suggestion_request
  | StoreGuestSuggestion suggestion_response
  | StoreGuestSession guest_session
  | SetLoading bool
  | UncaughtTypeError

text \<open>The suggestion that reaches the recommendation screen, if any.\<close>

fun delivered :: "ui_effect list \<Rightarrow> suggestion_response option" where
  "delivered [] = None"
| "delivered (NavigateRecommendation s # es) = Some s"
| "delivered (StoreGuestSuggestion s # es) = Some s"
| "delivered (e # es) = delivered es"

fun error_shown :: "ui_effect list \<Rightarrow> bool" where
  "error_shown [] = False"
| "error_shown (MessageError m # es) = True"
| "error_shown (MessageErrorPrefixed m # es) = True"
| "error_shown (UncaughtTypeError # es) = True"
| "error_shown (e # es) = error_shown es"

fun api_called :: "ui_effect list \<Rightarrow> bool" where
  "api_called [] = False"
| "api_called (ApiGetSuggestion u # es) = True"
| "api_called (ApiGuestSuggestion r # es) = True"
| "api_called (e # es) = api_called es"


section \<open>The processing screen (\<open>ProcessingScreen.fetchSuggestion\<close>)\<close>

definition requiredFields :: "string list" where
  "requiredFields =
     [''name'', ''phone_number'', ''age'', ''height_cm'', ''weight_kg'', ''diet_type'',
      ''medical_condition'', ''health_goal'', ''spice_tolerance'']"

text \<open>
  Truthiness of \<open>userData[field]\<close>: an absent property is \<open>undefined\<close>, the empty string
  and the number zero are falsy, and the string literals of the enumerations are not empty.
  A name that is no property of the record reads \<open>undefined\<close>.
\<close>

definition str_truthy :: "string option \<Rightarrow> bool" where
  "str_truthy v = (case v of None \<Rightarrow> False | Some s \<Rightarrow> s \<noteq> [])"

definition num_truthy :: "real option \<Rightarrow> bool" where
  "num_truthy v = (case v of None \<Rightarrow> False | Some x \<Rightarrow> x \<noteq> 0)"

definition enum_truthy :: "'a option \<Rightarrow> bool" where
  "enum_truthy v = (case v of None \<Rightarrow> False | Some x \<Rightarrow> True)"

definition field_truthy :: "user_data \<Rightarrow> string \<Rightarrow> bool" where
  "field_truthy u f =
     (if f = ''name'' then str_truthy (ud_name u)
      else if f = ''phone_number'' then str_truthy (ud_phone_number u)
      else if f = ''age'' then num_truthy (ud_age u)
      else if f = ''email'' then str_truthy (ud_email u)
      else if f = ''gender'' then enum_truthy (ud_gender u)
      else if f = ''height_cm'' then num_truthy (ud_height_cm u)
      else if f = ''weight_kg'' then num_truthy (ud_weight_kg u)
      else if f = ''diet_type'' then enum_truthy (ud_diet_type u)
      else if f = ''health_goal'' then enum_truthy (ud_health_goal u)
      else if f = ''medical_condition'' then enum_truthy (ud_medical_condition u)
      else if f = ''spice_tolerance'' then enum_truthy (ud_spice_tolerance u)
      else False)"

definition missingFields :: "user_data \<Rightarrow> string list" where
  "missingFields u = filter (\<lambda>field. \<not> field_truthy u field) requiredFields"

text \<open>The catch branch: an error toast, then back to the questionnaire.\<close>

definition fetch_catch :: "jsval \<Rightarrow> ui_effect list" where
  "fetch_catch error =
     [if get_prop (get_prop error ''response'') ''status'' = JNum 422
      then MessageError (JStr ''Incomplete data. Please retake the questionnaire.'')
      else MessageError (js_or (get_prop error ''message'')
                               (JStr ''Unable to get recommendation. Please try again.'')),
      Navigate ''/questions'']"

definition fetchSuggestion :: "user_data \<Rightarrow> http_outcome \<Rightarrow> ui_effect list" where
  "fetchSuggestion userData net =
     (if missingFields userData \<noteq> []
      then [MessageError (JStr ''Please complete all questions first.''), Navigate ''/start'']
      else ApiGetSuggestion userData #
           (case getSuggestion net of
              Inr result \<Rightarrow> [NavigateRecommendation result]
            | Inl error \<Rightarrow> fetch_catch error))"


section \<open>The guest questionnaire (\<open>GuestQuestionnaireScreen.handleSubmit\<close>)\<close>

text \<open>
  \<open>a || b\<close> on an optional number and on an optional enumeration literal, and the effect
  of the trailing spread \<open>...completeData\<close>, which overrides a property exactly when
  \<open>completeData\<close> has it.
\<close>

definition or_num :: "real option \<Rightarrow> real \<Rightarrow> real" where
  "or_num a b = (case a of None \<Rightarrow> b | Some x \<Rightarrow> if x \<noteq> 0 then x else b)"

definition or_enum :: "'a option \<Rightarrow> 'a \<Rightarrow> 'a" where
  "or_enum a b = (case a of None \<Rightarrow> b | Some x \<Rightarrow> x)"

definition spread_over :: "'a option \<Rightarrow> 'a \<Rightarrow> 'a" where
  "spread_over own v = (case own of None \<Rightarrow> v | Some x \<Rightarrow> x)"

definition healthData :: "guest_partial \<Rightarrow> guest_partial \<Rightarrow> guest_data" where
  "healthData completeData formData = \<lparr>
     gd_age = spread_over (gp_age completeData)
                (or_num (gp_age completeData) (or_num (gp_age formData) 25)),
     gd_gender = spread_over (gp_gender completeData)
                (or_enum (gp_gender completeData) (or_enum (gp_gender formData) Other)),
     gd_height_cm = spread_over (gp_height_cm completeData)
                (or_num (gp_height_cm completeData) (or_num (gp_height_cm formData) 170)),
     gd_weight_kg = spread_over (gp_weight_kg completeData)
                (or_num (gp_weight_kg completeData) (or_num (gp_weight_kg formData) 70)),
     gd_diet_type = spread_over (gp_diet_type completeData)
                (or_enum (gp_diet_type completeData) (or_enum (gp_diet_type formData) Veg)),
     gd_health_goal = spread_over (gp_health_goal completeData)
                (or_enum (gp_health_goal completeData)
                   (or_enum (gp_health_goal formData) Balanced)),
     gd_medical_condition = spread_over (gp_medical_condition completeData)
                (or_enum (gp_medical_condition completeData)
                   (or_enum (gp_medical_condition formData) NoCondition)),
     gd_spice_tolerance = spread_over (gp_spice_tolerance completeData)
                (or_enum (gp_spice_tolerance completeData)
                   (or_enum (gp_spice_tolerance formData) Medium)) \<rparr>"

text \<open>The literal stored by the catch branch on a 500 or 404.\<close>

definition fallbackSuggestion :: suggestion_response where
  "fallbackSuggestion = \<lparr>
     health_summary = ''Based on your profile, we recommend a balanced diet approach.'',
     bmi_category = ''normal'',
     suggested_item = ''Plain Dosa'',
     suggested_item_details = None,
     similar_items = [],
     reason = ''Safe, nutritious option suitable for your health profile.'' \<rparr>"

definition takes_guest_fallback :: "jsval \<Rightarrow> bool" where
  "takes_guest_fallback error \<longleftrightarrow>
     get_prop (get_prop error ''response'') ''status'' = JNum 500 \<or>
     get_prop (get_prop error ''response'') ''status'' = JNum 404"

definition guest_catch :: "guest_session \<Rightarrow> jsval \<Rightarrow> ui_effect list" where
  "guest_catch sessionData error =
     (if takes_guest_fallback error
      then [StoreGuestSuggestion fallbackSuggestion, StoreGuestSession sessionData,
            Navigate ''/guest/recommendation'']
      else case opt_includes (get_prop error ''detail'') ''Invalid or expired guest session'' of
             None \<Rightarrow> [UncaughtTypeError]
           | Some True \<Rightarrow>
               [MessageError (JStr ''Session expired. Please start again.''),
                Navigate ''/mode-selection'']
           | Some False \<Rightarrow>
               (let d = get_prop (get_prop error ''response'') ''data'' in
                if truthy d
                then [MessageError (js_or (get_prop d ''detail'')
                        (js_or (get_prop d ''message'') (JStr ''Failed to get recommendation'')))]
                else if truthy (get_prop error ''message'')
                then [MessageErrorPrefixed (get_prop error ''message'')]
                else [MessageError (JStr ''Failed to get recommendation. Please try again.'')]))"

definition handleSubmit ::
  "guest_session option \<Rightarrow> guest_partial \<Rightarrow> guest_partial \<Rightarrow> http_outcome \<Rightarrow> ui_effect list"
where
  "handleSubmit sessionData formData completeData net =
     (case sessionData of
        None \<Rightarrow> [MessageError (JStr ''Session expired. Please start again.''),
                 Navigate ''/mode-selection'']
      | Some s \<Rightarrow>
          [SetLoading True,
           ApiGuestSuggestion \<lparr> req_session_id = session_id s,
                                req_health_data = healthData completeData formData \<rparr>]
          @ (case getGuestSuggestion net of
               Inr suggestion \<Rightarrow>
                 [StoreGuestSuggestion suggestion, StoreGuestSession s,
                  Navigate ''/guest/recommendation'']
             | Inl error \<Rightarrow> guest_catch s error)
          @ [SetLoading False])"


section \<open>The admin dashboard (\<open>AdminDashboardScreen.handleSave\<close>)\<close>

text \<open>
  The payload is \<open>{...values, suitable_for: editingItem?.suitable_for || {...}}\<close>: the
  form values, with the property \<open>suitable_for\<close> written last, so it replaces a form
  value of that name. An object is truthy, so \<open>||\<close> takes the default only when there
  is no item being edited.
\<close>

definition default_suitable_for :: suitability where
  "default_suitable_for = \<lparr>
     bmi_categories = [''underweight'', ''normal'', ''overweight'', ''obese''],
     medical_conditions = [''none'', ''diabetes'', ''bp'', ''acidity''] \<rparr>"

record save_payload =
  form_values :: "(string \<times> jsval) list"
  payload_suitable_for :: suitability

definition save_payload_of :: "menu_item option \<Rightarrow> (string \<times> jsval) list \<Rightarrow> save_payload" where
  "save_payload_of editingItem values = \<lparr>
     form_values = filter (\<lambda>kv. fst kv \<noteq> ''suitable_for'') values,
     payload_suitable_for =
       (case editingItem of None \<Rightarrow> default_suitable_for | Some item \<Rightarrow> suitable_for item) \<rparr>"

text \<open>
  \<open>handleSave\<close>: the payload posted to the backend and the toast that follows, given
  whether the request succeeds.
\<close>

definition handleSave ::
  "menu_item option \<Rightarrow> (string \<times> jsval) list \<Rightarrow> bool \<Rightarrow> save_payload \<times> string" where
  "handleSave editingItem values saved =
     (save_payload_of editingItem values,
      if saved
      then (case editingItem of
              None \<Rightarrow> ''Item created successfully''
            | Some item \<Rightarrow> ''Item updated successfully'')
      else ''Failed to save item'')"

text \<open>
  The BMI categories and medical conditions, with the string literals that name them in
  the suitability tags, and what it means for tags to cover a pair.
\<close>

datatype bmi_cat = Underweight | Normal | Overweight | Obese

fun bmi_cat_name :: "bmi_cat \<Rightarrow> string" where
  "bmi_cat_name Underweight = ''underweight''"
| "bmi_cat_name Normal = ''normal''"
| "bmi_cat_name Overweight = ''overweight''"
| "bmi_cat_name Obese = ''obese''"

fun condition_name :: "condition \<Rightarrow> string" where
  "condition_name NoCondition = ''none''"
| "condition_name Diabetes = ''diabetes''"
| "condition_name BP = ''bp''"
| "condition_name Acidity = ''acidity''"

definition covers :: "suitability \<Rightarrow> bmi_cat \<Rightarrow> condition \<Rightarrow> bool" where
  "covers s b c \<longleftrightarrow>
     bmi_cat_name b \<in> set (bmi_categories s) \<and> condition_name c \<in> set (medical_conditions s)"


section \<open>Wording of the fallback texts\<close>

text \<open>
  The spec asks of a fallback reason text that it \<open>explicitly states the recommendation is
  a safe default due to degraded service\<close>. Following these words, and not the source, a
  text counts as stating it when it names the cause or the substitute nature of the answer
  with one of the words below.
\<close>

definition degradation_words :: "string list" where
  "degradation_words =
     [''timeout'', ''degraded'', ''unavailable'', ''fallback'', ''default'', ''due to'',
      ''error'', ''failed'', ''outage'']"

definition states_degraded_service :: "string \<Rightarrow> bool" where
  "states_degraded_service t = list_ex (str_includes t) degradation_words"


section \<open>BMI of a user profile\<close>

text \<open>
  Modelled from the spec: the backend's BMI computation is not among the sources (only the
  frontend, which displays \<open>bmi\<close> and \<open>bmi_category\<close>, is). The profile carries height
  in centimetres and weight in kilograms, as the request model does; BMI is
  \<open>weight_kg / (height_m)\<^sup>2\<close>, undefined for a zero height, and the category follows the
  thresholds 18.5, 25 and 30, each threshold belonging to the category above it.
\<close>

record user_profile =
  up_age :: real
  up_height_cm :: real
  up_weight_kg :: real
  up_diet_type :: diet
  up_medical_condition :: condition
  up_spice_tolerance :: level
  up_health_goal :: goal

text \<open>Modelled from the spec: the height in metres of a profile.\<close>

definition height_m :: "user_profile \<Rightarrow> real" where
  "height_m p = up_height_cm p / 100"

text \<open>
  Modelled from the spec: the derived attribute \<open>BMI = weight_kg / (height_m)\<^sup>2\<close>; a
  division by a zero height has no result.
\<close>

definition bmi :: "user_profile \<Rightarrow> real option" where
  "bmi p = (if height_m p = 0 then None else Some (up_weight_kg p / (height_m p)\<^sup>2))"

text \<open>Modelled from the spec: the category of a BMI by the thresholds 18.5, 25 and 30.\<close>

definition bmi_category_of :: "real \<Rightarrow> bmi_cat" where
  "bmi_category_of b =
     (if b < 18.5 then Underweight
      else if b < 25 then Normal
      else if b < 30 then Overweight
      else Obese)"

text \<open>Modelled from the spec: the BMI category of a profile.\<close>

definition profile_category :: "user_profile \<Rightarrow> bmi_cat option" where
  "profile_category p = map_option bmi_category_of (bmi p)"


section \<open>Circuit breaker\<close>

text \<open>
  Modelled from the spec: the backend's circuit breaker (\<open>circuit_breaker.py\<close>) is not among
  the sources. The state carries the current state, the consecutive failure count, the
  probe-success count and the time of the last transition; the configuration the failure
  threshold, the recovery timeout and the success threshold. The protected operation acts on
  a world \<open>'w\<close> (a call counter, say) and reports success or failure.
\<close>

datatype cb_state = Closed | Open | HalfOpen

record cb_config =
  failure_threshold :: nat
  recovery_timeout :: int
  success_threshold :: nat

record breaker =
  state :: cb_state
  failure_count :: nat
  probe_successes :: nat
  transition_time :: int

datatype cb_result = CircuitOpen | Succeeded | Failed

definition new_breaker :: "int \<Rightarrow> breaker" where
  "new_breaker now = \<lparr> state = Closed, failure_count = 0, probe_successes = 0,
                       transition_time = now \<rparr>"

text \<open>
  Modelled from the spec: the gate. A call while Open and before
  \<open>now - transitionTime \<ge> recoveryTimeout\<close> is rejected; once the timeout has elapsed the
  call is let through in Half-Open.
\<close>

definition admit :: "cb_config \<Rightarrow> int \<Rightarrow> breaker \<Rightarrow> breaker option" where
  "admit cfg now b =
     (case state b of
        Open \<Rightarrow>
          if now - transition_time b \<ge> recovery_timeout cfg
          then Some (b\<lparr> state := HalfOpen, probe_successes := 0, transition_time := now \<rparr>)
          else None
      | Closed \<Rightarrow> Some b
      | HalfOpen \<Rightarrow> Some b)"

text \<open>
  Modelled from the spec: a success in Half-Open increments the probe-success counter and
  closes the circuit, resetting all counters, once the success threshold is met; a success
  in Closed ends the run of consecutive failures.
\<close>

definition record_success :: "cb_config \<Rightarrow> int \<Rightarrow> breaker \<Rightarrow> breaker" where
  "record_success cfg now b =
     (case state b of
        Closed \<Rightarrow> b\<lparr> failure_count := 0 \<rparr>
      | HalfOpen \<Rightarrow>
          if Suc (probe_successes b) \<ge> success_threshold cfg
          then \<lparr> state = Closed, failure_count = 0, probe_successes = 0, transition_time = now \<rparr>
          else b\<lparr> probe_successes := Suc (probe_successes b) \<rparr>
      | Open \<Rightarrow> b)"

text \<open>
  Modelled from the spec: a failure in Closed increments the counter, and reaching the
  threshold flips to Open and records the transition time; a failure in Half-Open reopens
  the circuit at once and resets the recovery timer.
\<close>

definition record_failure :: "cb_config \<Rightarrow> int \<Rightarrow> breaker \<Rightarrow> breaker" where
  "record_failure cfg now b =
     (case state b of
        Closed \<Rightarrow>
          if Suc (failure_count b) \<ge> failure_threshold cfg
          then b\<lparr> state := Open, failure_count := Suc (failure_count b), transition_time := now \<rparr>
          else b\<lparr> failure_count := Suc (failure_count b) \<rparr>
      | HalfOpen \<Rightarrow> b\<lparr> state := Open, probe_successes := 0, transition_time := now \<rparr>
      | Open \<Rightarrow> b)"

text \<open>
  Modelled from the spec: one guarded call. A rejected call returns the circuit-open error
  and leaves both the breaker and the world as they were.
\<close>

definition call ::
  "cb_config \<Rightarrow> int \<Rightarrow> ('w \<Rightarrow> bool \<times> 'w) \<Rightarrow> breaker \<times> 'w \<Rightarrow> cb_result \<times> breaker \<times> 'w" where
  "call cfg now operation bw =
     (case admit cfg now (fst bw) of
        None \<Rightarrow> (CircuitOpen, fst bw, snd bw)
      | Some b' \<Rightarrow>
          (let (ok, w') = operation (snd bw)
           in if ok then (Succeeded, record_success cfg now b', w')
              else (Failed, record_failure cfg now b', w')))"

text \<open>A run of calls of the same operation, one at each of the given times.\<close>

fun calls ::
  "cb_config \<Rightarrow> ('w \<Rightarrow> bool \<times> 'w) \<Rightarrow> int list \<Rightarrow> breaker \<times> 'w \<Rightarrow> breaker \<times> 'w" where
  "calls cfg operation [] bw = bw"
| "calls cfg operation (t # ts) bw = calls cfg operation ts (snd (call cfg t operation bw))"

text \<open>Wrapped operations with a call counter: one that always fails, one that succeeds.\<close>

definition failing :: "nat \<Rightarrow> bool \<times> nat" where
  "failing n = (False, Suc n)"

definition succeeding :: "nat \<Rightarrow> bool \<times> nat" where
  "succeeding n = (True, Suc n)"

text \<open>
  The counters of a breaker stay below their thresholds while the state they belong to
  lasts.
\<close>

definition breaker_ok :: "cb_config \<Rightarrow> breaker \<Rightarrow> bool" where
  "breaker_ok cfg b \<longleftrightarrow>
     (state b = Closed \<and> failure_count b < failure_threshold cfg) \<or>
     (state b = HalfOpen \<and> probe_successes b < success_threshold cfg) \<or>
     state b = Open"


section \<open>Retry executor\<close>

text \<open>
  Modelled from the spec: the backend's retry executor (\<open>retry_service.py\<close>) is not among the
  sources. Failures are retryable (timeout, transient connectivity) or not (validation,
  not-found). The jitter source is injected: it yields a draw from \<open>[0, 1)\<close> for each attempt,
  and \<open>random_jitter lo hi\<close> scales that draw to \<open>[lo, hi)\<close>. The backoff delay for attempt
  \<open>n\<close> (1-indexed), slept after that attempt has failed and so before retry \<open>n\<close>, is
  \<open>baseDelay * 2^(n-1) + random_jitter(0, baseDelay)\<close>.
\<close>

datatype op_error = TimeoutError | ConnectivityError | ValidationError | NotFoundError

fun retryable :: "op_error \<Rightarrow> bool" where
  "retryable TimeoutError = True"
| "retryable ConnectivityError = True"
| "retryable ValidationError = False"
| "retryable NotFoundError = False"

text \<open>Modelled from the spec: \<open>random_jitter(lo, hi)\<close>, given the draw from \<open>[0, 1)\<close>.\<close>

definition random_jitter :: "real \<Rightarrow> real \<Rightarrow> real \<Rightarrow> real" where
  "random_jitter lo hi draw = lo + draw * (hi - lo)"

text \<open>
  Modelled from the spec: the backoff delay for attempt \<open>n\<close>,
  \<open>baseDelay * 2^(n-1) + random_jitter(0, baseDelay)\<close>.
\<close>

definition backoff_delay :: "real \<Rightarrow> nat \<Rightarrow> real \<Rightarrow> real" where
  "backoff_delay baseDelay n draw = baseDelay * 2 ^ (n - 1) + random_jitter 0 baseDelay draw"

text \<open>
  Modelled from the spec: the attempts from number \<open>n\<close> on, with \<open>k\<close> retries left. The
  result comes with the delays slept, in order. A success or a non-retryable failure returns
  at once; a retryable failure with no retry left surfaces as the last observed error.
\<close>

fun attempts ::
  "(nat \<Rightarrow> op_error + 'a) \<Rightarrow> real \<Rightarrow> (nat \<Rightarrow> real) \<Rightarrow> nat \<Rightarrow> nat \<Rightarrow> (op_error + 'a) \<times> real list"
where
  "attempts operation baseDelay draw n 0 = (operation n, [])"
| "attempts operation baseDelay draw n (Suc k) =
     (case operation n of
        Inr v \<Rightarrow> (Inr v, [])
      | Inl e \<Rightarrow>
          if retryable e
          then (let r = attempts operation baseDelay draw (Suc n) k
                in (fst r, backoff_delay baseDelay n (draw n) # snd r))
          else (Inl e, []))"

text \<open>
  Modelled from the spec: \<open>execute(operation, maxAttempts, baseDelay)\<close>. With no attempt
  allowed there is nothing to return (\<open>None\<close>).
\<close>

definition execute ::
  "(nat \<Rightarrow> op_error + 'a) \<Rightarrow> nat \<Rightarrow> real \<Rightarrow> (nat \<Rightarrow> real) \<Rightarrow> ((op_error + 'a) \<times> real list) option"
where
  "execute operation maxAttempts baseDelay draw =
     (if maxAttempts = 0 then None
      else Some (attempts operation baseDelay draw 1 (maxAttempts - 1)))"


section \<open>Cache layer\<close>

text \<open>
  Modelled from the spec: the backend's cache (\<open>cache_service.py\<close>) is not among the sources.
  An entry carries its value, its insertion and last-access timestamps and its expiry
  (\<open>now + ttl\<close>, computed at insertion). The cache keeps its entries most recently used
  first, with a fixed maximum entry count and the counters reported by \<open>stats\<close>.
\<close>

record 'v cache_entry =
  ce_value :: 'v
  ce_inserted_at :: int
  ce_last_access :: int
  ce_expires_at :: int

record ('k, 'v) cache =
  entries :: "('k \<times> 'v cache_entry) list"
  max_size :: nat
  hits :: nat
  misses :: nat
  evictions :: nat

definition empty_cache :: "nat \<Rightarrow> ('k, 'v) cache" where
  "empty_cache m = \<lparr> entries = [], max_size = m, hits = 0, misses = 0, evictions = 0 \<rparr>"

definition cache_keys :: "('k, 'v) cache \<Rightarrow> 'k list" where
  "cache_keys c = map fst (entries c)"

definition remove_key :: "'k \<Rightarrow> ('k \<times> 'e) list \<Rightarrow> ('k \<times> 'e) list" where
  "remove_key k es = filter (\<lambda>ke. fst ke \<noteq> k) es"

text \<open>
  Modelled from the spec: \<open>get\<close>. An expired entry behaves as a miss and is removed; a hit
  refreshes the last-access timestamp and makes the entry the most recently used.
\<close>

definition cache_get :: "'k \<Rightarrow> int \<Rightarrow> ('k, 'v) cache \<Rightarrow> 'v option \<times> ('k, 'v) cache" where
  "cache_get k now c =
     (case map_of (entries c) k of
        None \<Rightarrow> (None, c\<lparr> misses := Suc (misses c) \<rparr>)
      | Some e \<Rightarrow>
          if ce_expires_at e \<le> now
          then (None, c\<lparr> entries := remove_key k (entries c), misses := Suc (misses c) \<rparr>)
          else (Some (ce_value e),
                c\<lparr> entries := (k, e\<lparr> ce_last_access := now \<rparr>) # remove_key k (entries c),
                   hits := Suc (hits c) \<rparr>))"

text \<open>
  Modelled from the spec: \<open>put\<close>. A key already present is overwritten in place of its old
  entry; a new key inserted at capacity first evicts the least-recently-used entry, the last
  of the list.
\<close>

definition cache_put :: "'k \<Rightarrow> 'v \<Rightarrow> int \<Rightarrow> int \<Rightarrow> ('k, 'v) cache \<Rightarrow> ('k, 'v) cache" where
  "cache_put k v ttl now c =
     (let e = \<lparr> ce_value = v, ce_inserted_at = now, ce_last_access = now,
                ce_expires_at = now + ttl \<rparr>
      in if k \<in> set (cache_keys c)
         then c\<lparr> entries := (k, e) # remove_key k (entries c) \<rparr>
         else if length (entries c) \<ge> max_size c
         then c\<lparr> entries := (k, e) # butlast (entries c), evictions := Suc (evictions c) \<rparr>
         else c\<lparr> entries := (k, e) # entries c \<rparr>)"

text \<open>A sequence of insertions, each with its key, value, time to live and time.\<close>

fun put_all :: "('k \<times> 'v \<times> int \<times> int) list \<Rightarrow> ('k, 'v) cache \<Rightarrow> ('k, 'v) cache" where
  "put_all [] c = c"
| "put_all ((k, v, ttl, now) # ps) c = put_all ps (cache_put k v ttl now c)"

text \<open>
  The state of a cache at time \<open>now\<close>: distinct keys, no more entries than the maximum, and
  the entries in the order of their last access, none of it in the future.
\<close>

definition cache_ok :: "int \<Rightarrow> ('k, 'v) cache \<Rightarrow> bool" where
  "cache_ok now c \<longleftrightarrow>
     distinct (cache_keys c) \<and>
     length (entries c) \<le> max_size c \<and>
     sorted (rev (map (\<lambda>ke. ce_last_access (snd ke)) (entries c))) \<and>
     list_all (\<lambda>ke. ce_last_access (snd ke) \<le> now) (entries c)"




section \<open>Observations and sample inputs\<close>

text \<open>The guest request posted to the backend, if any.\<close>

fun guest_request_sent :: "ui_effect list \<Rightarrow> guest_suggestion_request option" where
  "guest_request_sent [] = None"
| "guest_request_sent (ApiGuestSuggestion r # es) = Some r"
| "guest_request_sent (e # es) = guest_request_sent es"

text \<open>All nine required fields of the user context are present and truthy.\<close>

definition all_required_present :: "user_data \<Rightarrow> bool" where
  "all_required_present u \<longleftrightarrow>
     str_truthy (ud_name u) \<and> str_truthy (ud_phone_number u) \<and> num_truthy (ud_age u) \<and>
     num_truthy (ud_height_cm u) \<and> num_truthy (ud_weight_kg u) \<and>
     enum_truthy (ud_diet_type u) \<and> enum_truthy (ud_medical_condition u) \<and>
     enum_truthy (ud_health_goal u) \<and> enum_truthy (ud_spice_tolerance u)"

text \<open>The user of the README's test request, and a user context that lacks the age.\<close>

definition sample_user :: user_data where
  "sample_user = \<lparr>
     ud_name = Some ''Test User'', ud_phone_number = Some ''1234567890'', ud_age = Some 25,
     ud_email = None, ud_gender = Some Male, ud_height_cm = Some 175, ud_weight_kg = Some 70,
     ud_diet_type = Some Veg, ud_health_goal = Some Balanced,
     ud_medical_condition = Some Diabetes, ud_spice_tolerance = Some Medium \<rparr>"

definition user_without_age :: user_data where
  "user_without_age = sample_user\<lparr> ud_age := None \<rparr>"

definition sample_profile :: user_profile where
  "sample_profile = \<lparr>
     up_age = 25, up_height_cm = 175, up_weight_kg = 70, up_diet_type = Veg,
     up_medical_condition = Diabetes, up_spice_tolerance = Medium, up_health_goal = Balanced \<rparr>"

definition sample_session :: guest_session where
  "sample_session = \<lparr> session_id = ''guest-1'', expires_at = ''2026-01-01T00:00:00Z'',
                       session_message = ''Guest session created'' \<rparr>"

definition empty_form :: guest_partial where
  "empty_form = \<lparr>
     gp_age = None, gp_gender = None, gp_height_cm = None, gp_weight_kg = None,
     gp_diet_type = None, gp_health_goal = None, gp_medical_condition = None,
     gp_spice_tolerance = None \<rparr>"

text \<open>
  The form of a guest who has answered the steps the questionnaire asks before it submits:
  age and gender, height and weight, diet, medical condition.
\<close>

definition answered_form :: guest_partial where
  "answered_form = \<lparr>
     gp_age = Some 30, gp_gender = Some Female, gp_height_cm = Some 160,
     gp_weight_kg = Some 55, gp_diet_type = Some Egg, gp_health_goal = None,
     gp_medical_condition = Some Diabetes, gp_spice_tolerance = None \<rparr>"

text \<open>
  Failures as Axios reports them: a request that timed out, a 500 with a JSON body, a 500
  with an empty body, and a network error without any response.
\<close>

definition timeout_error :: axios_error where
  "timeout_error = \<lparr> err_code = Some ''ECONNABORTED'',
                      err_message = ''timeout of 30000ms exceeded'', err_response = None \<rparr>"

definition server_error :: axios_error where
  "server_error = \<lparr> err_code = Some ''ERR_BAD_RESPONSE'',
     err_message = ''Request failed with status code 500'',
     err_response = Some \<lparr> status = 500,
                            data = JObj [(''detail'', JStr ''Internal Server Error'')] \<rparr> \<rparr>"

definition server_error_empty_body :: axios_error where
  "server_error_empty_body = \<lparr> err_code = Some ''ERR_BAD_RESPONSE'',
     err_message = ''Request failed with status code 500'',
     err_response = Some \<lparr> status = 500, data = JStr [] \<rparr> \<rparr>"

definition network_error :: axios_error where
  "network_error = \<lparr> err_code = Some ''ERR_NETWORK'', err_message = ''Network Error'',
                      err_response = None \<rparr>"

text \<open>The breaker configuration of the README, with two probe successes to close.\<close>

definition sample_config :: cb_config where
  "sample_config = \<lparr> failure_threshold = 3, recovery_timeout = 30, success_threshold = 2 \<rparr>"


section \<open>The frontend: failures, fallbacks and guards\<close>

lemma missingFields_empty_iff: "missingFields u = [] \<longleftrightarrow> all_required_present u"
  by (auto simp add: missingFields_def requiredFields_def field_truthy_def
      all_required_present_def)

lemma interceptor_timeout: "is_timeout e \<Longrightarrow> response_interceptor e = Inr timeout_fallback"
  by (simp add: response_interceptor_def)

lemma sample_user_complete: "all_required_present sample_user"
  by (simp add: all_required_present_def sample_user_def str_truthy_def num_truthy_def
      enum_truthy_def)

lemma timeout_error_is_timeout: "is_timeout timeout_error"
  by (simp add: is_timeout_def timeout_error_def)

lemma server_error_no_timeout: "\<not> is_timeout server_error"
  by (simp add: is_timeout_def server_error_def)

lemma server_error_empty_body_no_timeout: "\<not> is_timeout server_error_empty_body"
  by (simp add: is_timeout_def server_error_empty_body_def)

lemma empty_body_takes_guest_fallback:
  "takes_guest_fallback (error_object server_error_empty_body)"
  by (simp add: takes_guest_fallback_def error_object_def server_error_empty_body_def)

lemma network_error_no_timeout: "\<not> is_timeout network_error"
  by (simp add: is_timeout_def network_error_def)

text \<open>
  Claim C1 says that a request failing because the store is unavailable still ends in a
  suggestion, never in an error. The code does so only for timeouts. Here the backend
  answers the README's user with a 500, with and without a body, or cannot be reached at
  all: the processing screen delivers no suggestion and shows an error message, among them
  the raw \<open>Request failed with status code 500\<close> and \<open>Network Error\<close> of the HTTP client.
  The guest screen, which does substitute a suggestion when it sees a status of 500, sees
  none when the 500 comes with a body, because the interceptor has already replaced the
  error by that body; it shows an error message too.
\<close>

theorem store_failure_shows_error:
  "fetchSuggestion sample_user (HttpFail server_error)
     = [ApiGetSuggestion sample_user,
        MessageError (JStr ''Unable to get recommendation. Please try again.''),
        Navigate ''/questions'']
   \<and> fetchSuggestion sample_user (HttpFail server_error_empty_body)
     = [ApiGetSuggestion sample_user,
        MessageError (JStr ''Request failed with status code 500''),
        Navigate ''/questions'']
   \<and> fetchSuggestion sample_user (HttpFail network_error)
     = [ApiGetSuggestion sample_user, MessageError (JStr ''Network Error''),
        Navigate ''/questions'']
   \<and> delivered (fetchSuggestion sample_user (HttpFail server_error)) = None
   \<and> delivered (fetchSuggestion sample_user (HttpFail server_error_empty_body)) = None
   \<and> delivered (fetchSuggestion sample_user (HttpFail network_error)) = None
   \<and> delivered (handleSubmit (Some sample_session) empty_form empty_form
        (HttpFail server_error)) = None
   \<and> error_shown (handleSubmit (Some sample_session) empty_form empty_form
        (HttpFail server_error))
   \<and> delivered (handleSubmit (Some sample_session) empty_form empty_form
        (HttpFail server_error_empty_body)) = Some fallbackSuggestion"
proof -
  have complete: "missingFields sample_user = []"
    by (simp add: missingFields_empty_iff sample_user_complete)
  have a: "response_interceptor server_error
             = Inl (JObj [(''detail'', JStr ''Internal Server Error'')])"
    using server_error_no_timeout
    by (simp add: response_interceptor_def) (simp add: server_error_def)
  have b: "response_interceptor network_error = Inl (error_object network_error)"
    using network_error_no_timeout
    by (simp add: response_interceptor_def) (simp add: network_error_def)
  have e: "response_interceptor server_error_empty_body
             = Inl (error_object server_error_empty_body)"
    using server_error_empty_body_no_timeout
    by (simp add: response_interceptor_def) (simp add: server_error_empty_body_def)
  have c: "fetch_catch (JObj [(''detail'', JStr ''Internal Server Error'')])
             = [MessageError (JStr ''Unable to get recommendation. Please try again.''),
                Navigate ''/questions'']"
    by (simp add: fetch_catch_def js_or_def)
  have d: "fetch_catch (error_object network_error)
             = [MessageError (JStr ''Network Error''), Navigate ''/questions'']"
    by (simp add: fetch_catch_def js_or_def error_object_def network_error_def)
  have f: "fetch_catch (error_object server_error_empty_body)
             = [MessageError (JStr ''Request failed with status code 500''),
                Navigate ''/questions'']"
    by (simp add: fetch_catch_def js_or_def error_object_def server_error_empty_body_def)
  have g: "guest_catch sample_session (JObj [(''detail'', JStr ''Internal Server Error'')])
             = [MessageError (JStr ''Failed to get recommendation. Please try again.'')]"
    by (simp add: guest_catch_def takes_guest_fallback_def)
  have h: "guest_catch sample_session (error_object server_error_empty_body) =
       [StoreGuestSuggestion fallbackSuggestion, StoreGuestSession sample_session,
        Navigate ''/guest/recommendation'']"
    using empty_body_takes_guest_fallback by (simp add: guest_catch_def)
  show ?thesis
    by (simp add: fetchSuggestion_def handleSubmit_def complete getSuggestion_def
        getGuestSuggestion_def a b c d e f g h)
qed

text \<open>
  Claim C2 says that every request taking the fallback path receives the same safe item.
  The code has two fallback literals that disagree. Here the same guest request takes a
  fallback twice, once because the request timed out and once because the server answered
  500 with an empty body: the interceptor answers \<open>Plain Idli\<close>, the guest screen
  \<open>Plain Dosa\<close>.
\<close>

theorem fallback_items_differ:
  "delivered (handleSubmit (Some sample_session) empty_form empty_form
      (HttpFail timeout_error)) = Some timeout_fallback
   \<and> delivered (handleSubmit (Some sample_session) empty_form empty_form
      (HttpFail server_error_empty_body)) = Some fallbackSuggestion
   \<and> suggested_item timeout_fallback = ''Plain Idli''
   \<and> suggested_item fallbackSuggestion = ''Plain Dosa''
   \<and> suggested_item timeout_fallback \<noteq> suggested_item fallbackSuggestion"
proof -
  have a: "response_interceptor timeout_error = Inr timeout_fallback"
    using timeout_error_is_timeout by (rule interceptor_timeout)
  have b: "response_interceptor server_error_empty_body
             = Inl (error_object server_error_empty_body)"
    using server_error_empty_body_no_timeout
    by (simp add: response_interceptor_def) (simp add: server_error_empty_body_def)
  have c: "guest_catch sample_session (error_object server_error_empty_body) =
       [StoreGuestSuggestion fallbackSuggestion, StoreGuestSession sample_session,
        Navigate ''/guest/recommendation'']"
    using empty_body_takes_guest_fallback by (simp add: guest_catch_def)
  show ?thesis
    by (simp add: handleSubmit_def getGuestSuggestion_def a b c)
       (simp add: timeout_fallback_def fallbackSuggestion_def)
qed

text \<open>
  Claim C3 says that the reason text of a fallback suggestion states that the
  recommendation is a safe default due to degraded service. Here a registered request
  times out and a guest request meets a 500 with an empty body: the reason texts delivered
  are \<open>Safe, low-calorie option suitable for your health profile.\<close> and
  \<open>Safe, nutritious option suitable for your health profile.\<close>, neither of which says
  so. The timeout fallback does name the cause, but in its health summary; the guest
  fallback names it nowhere.
\<close>

theorem fallback_reason_omits_degradation:
  "map_option reason (delivered (fetchSuggestion sample_user (HttpFail timeout_error)))
     = Some ''Safe, low-calorie option suitable for your health profile.''
   \<and> map_option reason (delivered (handleSubmit (Some sample_session) empty_form empty_form
        (HttpFail server_error_empty_body)))
     = Some ''Safe, nutritious option suitable for your health profile.''
   \<and> \<not> states_degraded_service ''Safe, low-calorie option suitable for your health profile.''
   \<and> \<not> states_degraded_service ''Safe, nutritious option suitable for your health profile.''
   \<and> states_degraded_service (health_summary timeout_fallback)
   \<and> \<not> states_degraded_service (health_summary fallbackSuggestion)"
proof -
  have complete: "missingFields sample_user = []"
    by (simp add: missingFields_empty_iff sample_user_complete)
  have a: "response_interceptor timeout_error = Inr timeout_fallback"
    using timeout_error_is_timeout by (rule interceptor_timeout)
  have b: "response_interceptor server_error_empty_body
             = Inl (error_object server_error_empty_body)"
    using server_error_empty_body_no_timeout
    by (simp add: response_interceptor_def) (simp add: server_error_empty_body_def)
  have c: "guest_catch sample_session (error_object server_error_empty_body) =
       [StoreGuestSuggestion fallbackSuggestion, StoreGuestSession sample_session,
        Navigate ''/guest/recommendation'']"
    using empty_body_takes_guest_fallback by (simp add: guest_catch_def)
  have r: "reason timeout_fallback = ''Safe, low-calorie option suitable for your health profile.''"
    "reason fallbackSuggestion = ''Safe, nutritious option suitable for your health profile.''"
    by (simp_all add: timeout_fallback_def fallbackSuggestion_def)
  have w: "\<not> states_degraded_service ''Safe, low-calorie option suitable for your health profile.''"
    "\<not> states_degraded_service ''Safe, nutritious option suitable for your health profile.''"
    "states_degraded_service (health_summary timeout_fallback)"
    "\<not> states_degraded_service (health_summary fallbackSuggestion)"
    by (simp_all add: states_degraded_service_def degradation_words_def
        timeout_fallback_def fallbackSuggestion_def)
  show ?thesis
    by (simp add: fetchSuggestion_def handleSubmit_def complete getSuggestion_def
        getGuestSuggestion_def a b c r w)
qed

text \<open>
  Claim C8. Every guest request posted to the backend carries a complete health record:
  whatever part of the form is filled in, the request is sent, and each of the eight fields
  is the value of the submitted data when that has the field, else the value of the form
  state when that has a truthy one, else the fixed default (age 25, gender other,
  height 170, weight 70, diet veg, goal balanced, condition none, spice medium). So a field
  missing from both takes its default and nothing the guest supplied is replaced.
\<close>

theorem guest_request_fully_populated:
  "guest_request_sent (handleSubmit (Some s) formData completeData net) =
     Some \<lparr> req_session_id = session_id s,
            req_health_data = healthData completeData formData \<rparr>
   \<and> (gp_age completeData = None \<and> gp_age formData = None \<longrightarrow>
        gd_age (healthData completeData formData) = 25)
   \<and> (gp_gender completeData = None \<and> gp_gender formData = None \<longrightarrow>
        gd_gender (healthData completeData formData) = Other)
   \<and> (gp_height_cm completeData = None \<and> gp_height_cm formData = None \<longrightarrow>
        gd_height_cm (healthData completeData formData) = 170)
   \<and> (gp_weight_kg completeData = None \<and> gp_weight_kg formData = None \<longrightarrow>
        gd_weight_kg (healthData completeData formData) = 70)
   \<and> (gp_diet_type completeData = None \<and> gp_diet_type formData = None \<longrightarrow>
        gd_diet_type (healthData completeData formData) = Veg)
   \<and> (gp_health_goal completeData = None \<and> gp_health_goal formData = None \<longrightarrow>
        gd_health_goal (healthData completeData formData) = Balanced)
   \<and> (gp_medical_condition completeData = None \<and> gp_medical_condition formData = None \<longrightarrow>
        gd_medical_condition (healthData completeData formData) = NoCondition)
   \<and> (gp_spice_tolerance completeData = None \<and> gp_spice_tolerance formData = None \<longrightarrow>
        gd_spice_tolerance (healthData completeData formData) = Medium)
   \<and> (\<forall>a. gp_age completeData = Some a \<longrightarrow> gd_age (healthData completeData formData) = a)
   \<and> (\<forall>h. gp_height_cm completeData = Some h \<longrightarrow>
          gd_height_cm (healthData completeData formData) = h)
   \<and> (\<forall>w. gp_weight_kg completeData = Some w \<longrightarrow>
          gd_weight_kg (healthData completeData formData) = w)
   \<and> (\<forall>g. gp_gender completeData = Some g \<longrightarrow>
          gd_gender (healthData completeData formData) = g)
   \<and> (\<forall>d. gp_diet_type completeData = Some d \<longrightarrow>
          gd_diet_type (healthData completeData formData) = d)
   \<and> (\<forall>g. gp_health_goal completeData = Some g \<longrightarrow>
          gd_health_goal (healthData completeData formData) = g)
   \<and> (\<forall>c. gp_medical_condition completeData = Some c \<longrightarrow>
          gd_medical_condition (healthData completeData formData) = c)
   \<and> (\<forall>l. gp_spice_tolerance completeData = Some l \<longrightarrow>
          gd_spice_tolerance (healthData completeData formData) = l)
   \<and> (\<forall>a. gp_age completeData = None \<and> gp_age formData = Some a \<longrightarrow>
          gd_age (healthData completeData formData) = (if a \<noteq> 0 then a else 25))
   \<and> (\<forall>h. gp_height_cm completeData = None \<and> gp_height_cm formData = Some h \<longrightarrow>
          gd_height_cm (healthData completeData formData) = (if h \<noteq> 0 then h else 170))
   \<and> (\<forall>w. gp_weight_kg completeData = None \<and> gp_weight_kg formData = Some w \<longrightarrow>
          gd_weight_kg (healthData completeData formData) = (if w \<noteq> 0 then w else 70))
   \<and> (\<forall>g. gp_gender completeData = None \<and> gp_gender formData = Some g \<longrightarrow>
          gd_gender (healthData completeData formData) = g)
   \<and> (\<forall>d. gp_diet_type completeData = None \<and> gp_diet_type formData = Some d \<longrightarrow>
          gd_diet_type (healthData completeData formData) = d)
   \<and> (\<forall>g. gp_health_goal completeData = None \<and> gp_health_goal formData = Some g \<longrightarrow>
          gd_health_goal (healthData completeData formData) = g)
   \<and> (\<forall>c. gp_medical_condition completeData = None \<and> gp_medical_condition formData = Some c
          \<longrightarrow> gd_medical_condition (healthData completeData formData) = c)
   \<and> (\<forall>l. gp_spice_tolerance completeData = None \<and> gp_spice_tolerance formData = Some l
          \<longrightarrow> gd_spice_tolerance (healthData completeData formData) = l)"
  by (simp add: handleSubmit_def healthData_def spread_over_def or_num_def or_enum_def)

text \<open>
  The guest of the sample form has answered the first four steps; the goal and the spice
  tolerance, which the questionnaire never asks before it submits, take their defaults,
  and every answer is sent as given. An empty form is sent as the eight defaults.
\<close>

theorem guest_request_fully_populated_witness:
  "gp_age answered_form = Some 30 \<and> gp_gender answered_form = Some Female
   \<and> gp_height_cm answered_form = Some 160 \<and> gp_weight_kg answered_form = Some 55
   \<and> gp_diet_type answered_form = Some Egg \<and> gp_health_goal answered_form = None
   \<and> gp_medical_condition answered_form = Some Diabetes
   \<and> gp_spice_tolerance answered_form = None
   \<and> gp_age empty_form = None \<and> gp_gender empty_form = None \<and> gp_height_cm empty_form = None
   \<and> gp_weight_kg empty_form = None \<and> gp_diet_type empty_form = None
   \<and> gp_health_goal empty_form = None \<and> gp_medical_condition empty_form = None
   \<and> gp_spice_tolerance empty_form = None
   \<and> guest_request_sent (handleSubmit (Some sample_session) answered_form answered_form
        (HttpFail server_error)) =
       Some \<lparr> req_session_id = ''guest-1'',
              req_health_data = \<lparr> gd_age = 30, gd_gender = Female, gd_height_cm = 160,
                gd_weight_kg = 55, gd_diet_type = Egg, gd_health_goal = Balanced,
                gd_medical_condition = Diabetes, gd_spice_tolerance = Medium \<rparr> \<rparr>
   \<and> guest_request_sent (handleSubmit (Some sample_session) answered_form empty_form
        (HttpFail server_error)) =
       Some \<lparr> req_session_id = ''guest-1'',
              req_health_data = \<lparr> gd_age = 30, gd_gender = Female, gd_height_cm = 160,
                gd_weight_kg = 55, gd_diet_type = Egg, gd_health_goal = Balanced,
                gd_medical_condition = Diabetes, gd_spice_tolerance = Medium \<rparr> \<rparr>
   \<and> guest_request_sent (handleSubmit (Some sample_session) empty_form empty_form
        (HttpFail server_error)) =
       Some \<lparr> req_session_id = ''guest-1'',
              req_health_data = \<lparr> gd_age = 25, gd_gender = Other, gd_height_cm = 170,
                gd_weight_kg = 70, gd_diet_type = Veg, gd_health_goal = Balanced,
                gd_medical_condition = NoCondition, gd_spice_tolerance = Medium \<rparr> \<rparr>"
proof -
  have a: "gp_age answered_form = Some 30 \<and> gp_gender answered_form = Some Female
     \<and> gp_height_cm answered_form = Some 160 \<and> gp_weight_kg answered_form = Some 55
     \<and> gp_diet_type answered_form = Some Egg \<and> gp_health_goal answered_form = None
     \<and> gp_medical_condition answered_form = Some Diabetes
     \<and> gp_spice_tolerance answered_form = None"
    by (simp add: answered_form_def)
  have e: "gp_age empty_form = None \<and> gp_gender empty_form = None
     \<and> gp_height_cm empty_form = None \<and> gp_weight_kg empty_form = None
     \<and> gp_diet_type empty_form = None \<and> gp_health_goal empty_form = None
     \<and> gp_medical_condition empty_form = None \<and> gp_spice_tolerance empty_form = None"
    by (simp add: empty_form_def)
  note submitted = guest_request_fully_populated
      [of sample_session answered_form answered_form "HttpFail server_error"]
  note from_state = guest_request_fully_populated
      [of sample_session answered_form empty_form "HttpFail server_error"]
  note blank = guest_request_fully_populated
      [of sample_session empty_form empty_form "HttpFail server_error"]
  have h1: "healthData answered_form answered_form =
      \<lparr> gd_age = 30, gd_gender = Female, gd_height_cm = 160,
        gd_weight_kg = 55, gd_diet_type = Egg, gd_health_goal = Balanced,
        gd_medical_condition = Diabetes, gd_spice_tolerance = Medium \<rparr>"
    using a submitted by (cases "healthData answered_form answered_form") simp
  have h2: "healthData empty_form answered_form =
      \<lparr> gd_age = 30, gd_gender = Female, gd_height_cm = 160,
        gd_weight_kg = 55, gd_diet_type = Egg, gd_health_goal = Balanced,
        gd_medical_condition = Diabetes, gd_spice_tolerance = Medium \<rparr>"
    using a e from_state by (cases "healthData empty_form answered_form") simp
  have h3: "healthData empty_form empty_form =
      \<lparr> gd_age = 25, gd_gender = Other, gd_height_cm = 170,
        gd_weight_kg = 70, gd_diet_type = Veg, gd_health_goal = Balanced,
        gd_medical_condition = NoCondition, gd_spice_tolerance = Medium \<rparr>"
  proof -
    have "gd_age (healthData empty_form empty_form) = 25"
      "gd_gender (healthData empty_form empty_form) = Other"
      "gd_height_cm (healthData empty_form empty_form) = 170"
      "gd_weight_kg (healthData empty_form empty_form) = 70"
      "gd_diet_type (healthData empty_form empty_form) = Veg"
      "gd_health_goal (healthData empty_form empty_form) = Balanced"
      "gd_medical_condition (healthData empty_form empty_form) = NoCondition"
      "gd_spice_tolerance (healthData empty_form empty_form) = Medium"
      using e blank by simp_all
    then show ?thesis by (cases "healthData empty_form empty_form") simp
  qed
  have s: "session_id sample_session = ''guest-1''" by (simp add: sample_session_def)
  from submitted have r1: "guest_request_sent (handleSubmit (Some sample_session)
        answered_form answered_form (HttpFail server_error)) =
     Some \<lparr> req_session_id = session_id sample_session,
            req_health_data = healthData answered_form answered_form \<rparr>"
    by (rule conjunct1)
  from from_state have r2: "guest_request_sent (handleSubmit (Some sample_session)
        answered_form empty_form (HttpFail server_error)) =
     Some \<lparr> req_session_id = session_id sample_session,
            req_health_data = healthData empty_form answered_form \<rparr>"
    by (rule conjunct1)
  from blank have r3: "guest_request_sent (handleSubmit (Some sample_session)
        empty_form empty_form (HttpFail server_error)) =
     Some \<lparr> req_session_id = session_id sample_session,
            req_health_data = healthData empty_form empty_form \<rparr>"
    by (rule conjunct1)
  from a e r1 r2 r3 show ?thesis by (simp add: h1 h2 h3 s)
qed

text \<open>
  Claim C9. When any of the nine required fields of the user context is absent or falsy,
  the processing screen shows its message, returns to the start screen and does nothing
  else: the suggestion API is not called, whatever the network would have answered.
\<close>

theorem incomplete_profile_skips_api:
  assumes "\<not> str_truthy (ud_name u) \<or> \<not> str_truthy (ud_phone_number u)
     \<or> \<not> num_truthy (ud_age u) \<or> \<not> num_truthy (ud_height_cm u)
     \<or> \<not> num_truthy (ud_weight_kg u) \<or> \<not> enum_truthy (ud_diet_type u)
     \<or> \<not> enum_truthy (ud_medical_condition u) \<or> \<not> enum_truthy (ud_health_goal u)
     \<or> \<not> enum_truthy (ud_spice_tolerance u)"
  shows "fetchSuggestion u net =
           [MessageError (JStr ''Please complete all questions first.''), Navigate ''/start'']
         \<and> \<not> api_called (fetchSuggestion u net)"
proof -
  from assms have "\<not> all_required_present u"
    by (auto simp add: all_required_present_def)
  then show ?thesis
    by (simp add: fetchSuggestion_def missingFields_empty_iff)
qed

theorem incomplete_profile_skips_api_witness:
  "\<not> num_truthy (ud_age user_without_age)
   \<and> fetchSuggestion user_without_age (HttpOk timeout_fallback) =
       [MessageError (JStr ''Please complete all questions first.''), Navigate ''/start'']
   \<and> \<not> api_called (fetchSuggestion user_without_age (HttpOk timeout_fallback))"
proof -
  have h: "\<not> num_truthy (ud_age user_without_age)"
    by (simp add: user_without_age_def num_truthy_def)
  then show ?thesis
    using incomplete_profile_skips_api [of user_without_age "HttpOk timeout_fallback"]
    by simp
qed

text \<open>
  Claim C10. Saving an edited menu item sends the item's own suitability tags unchanged;
  saving a new item sends the default tags, which name all four BMI categories and all four
  medical conditions, so that the new item covers every pair of a category and a condition.
\<close>

theorem save_preserves_suitability:
  "payload_suitable_for (fst (handleSave (Some item) values saved)) = suitable_for item
   \<and> payload_suitable_for (fst (handleSave None values saved)) = default_suitable_for
   \<and> (\<forall>b c. covers (payload_suitable_for (fst (handleSave None values saved))) b c)"
proof -
  have "covers default_suitable_for b c" for b c
    by (cases b; cases c) (simp_all add: covers_def default_suitable_for_def)
  then show ?thesis
    by (simp add: handleSave_def save_payload_of_def)
qed


section \<open>BMI\<close>

text \<open>
  Claim C7. For a profile with a height other than zero, the BMI is the weight in
  kilograms divided by the square of the height in metres, and its category is fixed by the
  thresholds 18.5, 25 and 30: underweight below 18.5, normal from 18.5 to below 25,
  overweight from 25 to below 30, obese from 30 on. The four ranges partition the BMI
  values.
\<close>

theorem bmi_and_category:
  assumes "up_height_cm p \<noteq> 0"
  shows "bmi p = Some (up_weight_kg p / (height_m p)\<^sup>2)
    \<and> height_m p * 100 = up_height_cm p
    \<and> profile_category p = Some (bmi_category_of (up_weight_kg p / (height_m p)\<^sup>2))
    \<and> (bmi_category_of b = Underweight \<longleftrightarrow> b < 18.5)
    \<and> (bmi_category_of b = Normal \<longleftrightarrow> 18.5 \<le> b \<and> b < 25)
    \<and> (bmi_category_of b = Overweight \<longleftrightarrow> 25 \<le> b \<and> b < 30)
    \<and> (bmi_category_of b = Obese \<longleftrightarrow> 30 \<le> b)"
  using assms
  by (auto simp add: bmi_def height_m_def profile_category_def bmi_category_of_def)

text \<open>At 175 cm and 70 kg the BMI is 160/7, about 22.86, which is normal.\<close>

theorem bmi_and_category_witness:
  "up_height_cm sample_profile \<noteq> 0
   \<and> bmi sample_profile = Some (160 / 7)
   \<and> profile_category sample_profile = Some Normal"
proof -
  have h: "up_height_cm sample_profile \<noteq> 0" by (simp add: sample_profile_def)
  have v: "up_weight_kg sample_profile / (height_m sample_profile)\<^sup>2 = 160 / 7"
    by (simp add: sample_profile_def height_m_def power2_eq_square)
  have n: "bmi_category_of (160 / 7) = Normal"
    using bmi_and_category [OF h, of "160 / 7"] by simp
  show ?thesis
    using bmi_and_category [OF h, of "160 / 7"] h v n by simp
qed


section \<open>Circuit breaker: transitions\<close>

lemma calls_append:
  "calls cfg operation (ts @ us) bw = calls cfg operation us (calls cfg operation ts bw)"
  by (induction ts arbitrary: bw) simp_all

lemma call_failing_closed:
  assumes "state b = Closed"
  shows "call cfg t failing (b, n) = (Failed, record_failure cfg t b, Suc n)"
  using assms by (simp add: call_def admit_def failing_def)

lemma calls_failing_below:
  "state b = Closed \<Longrightarrow> failure_count b + length ts < failure_threshold cfg \<Longrightarrow>
   calls cfg failing ts (b, n) = (b\<lparr> failure_count := failure_count b + length ts \<rparr>, n + length ts)"
proof (induction ts arbitrary: b n)
  case Nil
  then show ?case by simp
next
  case (Cons t ts)
  let ?b = "b\<lparr> failure_count := Suc (failure_count b) \<rparr>"
  from Cons.prems have step: "record_failure cfg t b = ?b"
    by (simp add: record_failure_def)
  have "calls cfg failing (t # ts) (b, n) = calls cfg failing ts (?b, Suc n)"
    using Cons.prems(1) step by (simp add: call_failing_closed)
  also have "\<dots> = (?b\<lparr> failure_count := failure_count ?b + length ts \<rparr>, Suc n + length ts)"
    using Cons.prems by (intro Cons.IH) simp_all
  finally show ?case by simp
qed

lemma calls_failing_threshold:
  assumes "0 < failure_threshold cfg" and "length ts = failure_threshold cfg"
  shows "calls cfg failing ts (new_breaker t0, 0) =
           (\<lparr> state = Open, failure_count = failure_threshold cfg, probe_successes = 0,
              transition_time = last ts \<rparr>, failure_threshold cfg)"
proof -
  from assms have ne: "ts \<noteq> []" by auto
  then have split: "ts = butlast ts @ [last ts]" by simp
  have len: "length (butlast ts) = failure_threshold cfg - 1" using assms by simp
  let ?b = "(new_breaker t0)\<lparr> failure_count := failure_threshold cfg - 1 \<rparr>"
  have "calls cfg failing (butlast ts) (new_breaker t0, 0) = (?b, failure_threshold cfg - 1)"
    using calls_failing_below [of "new_breaker t0" "butlast ts" cfg 0] assms len
    by (simp add: new_breaker_def)
  then have "calls cfg failing (butlast ts @ [last ts]) (new_breaker t0, 0) =
               snd (call cfg (last ts) failing (?b, failure_threshold cfg - 1))"
    by (simp add: calls_append)
  also have "\<dots> = (record_failure cfg (last ts) ?b, failure_threshold cfg)"
    using assms by (simp add: call_failing_closed new_breaker_def)
  also have "record_failure cfg (last ts) ?b =
      \<lparr> state = Open, failure_count = failure_threshold cfg, probe_successes = 0,
        transition_time = last ts \<rparr>"
    using assms by (simp add: record_failure_def new_breaker_def)
  finally show ?thesis using split by simp
qed

lemma open_rejects:
  assumes "state b = Open" and "now - transition_time b < recovery_timeout cfg"
  shows "call cfg now operation (b, w) = (CircuitOpen, b, w)"
  using assms by (simp add: call_def admit_def)

lemma breaker_ok_call:
  assumes "0 < failure_threshold cfg" "0 < success_threshold cfg" "breaker_ok cfg b"
    and "call cfg now operation (b, w) = (r, b', w')"
  shows "breaker_ok cfg b'"
  using assms
  by (auto simp add: call_def admit_def record_success_def record_failure_def breaker_ok_def
      split: cb_state.splits if_splits prod.splits option.splits)

lemma closed_to_open:
  assumes "breaker_ok cfg b" "call cfg now operation (b, w) = (r, b', w')"
    "state b = Closed" "state b' = Open"
  shows "r = Failed \<and> Suc (failure_count b) = failure_threshold cfg \<and> transition_time b' = now"
  using assms
  by (auto simp add: call_def admit_def record_success_def record_failure_def breaker_ok_def
      split: cb_state.splits if_splits prod.splits option.splits)

lemma closed_counts_consecutive_failures:
  assumes "call cfg now operation (b, w) = (r, b', w')" "state b = Closed"
  shows "(r = Succeeded \<longrightarrow> state b' = Closed \<and> failure_count b' = 0)
       \<and> (r = Failed \<longrightarrow> failure_count b' = Suc (failure_count b))"
  using assms
  by (auto simp add: call_def admit_def record_success_def record_failure_def
      split: cb_state.splits if_splits prod.splits option.splits)

lemma open_leaves_only_after_timeout:
  assumes "call cfg now operation (b, w) = (r, b', w')" "state b = Open"
    "r \<noteq> CircuitOpen \<or> state b' \<noteq> Open \<or> b' \<noteq> b"
  shows "now - transition_time b \<ge> recovery_timeout cfg"
  using assms
  by (auto simp add: call_def admit_def record_success_def record_failure_def
      split: cb_state.splits if_splits prod.splits option.splits)

lemma half_open_to_closed:
  assumes "breaker_ok cfg b" "call cfg now operation (b, w) = (r, b', w')"
    "state b = HalfOpen" "state b' = Closed"
  shows "r = Succeeded \<and> Suc (probe_successes b) = success_threshold cfg"
  using assms
  by (auto simp add: call_def admit_def record_success_def record_failure_def breaker_ok_def
      split: cb_state.splits if_splits prod.splits option.splits)

lemma half_open_failure:
  assumes "call cfg now operation (b, w) = (r, b', w')" "state b = HalfOpen" "r = Failed"
  shows "state b' = Open \<and> transition_time b' = now"
  using assms
  by (auto simp add: call_def admit_def record_success_def record_failure_def
      split: cb_state.splits if_splits prod.splits option.splits)

lemma call_succeeding_half_open:
  assumes "state b = HalfOpen"
  shows "call cfg t succeeding (b, n) = (Succeeded, record_success cfg t b, Suc n)"
  using assms by (simp add: call_def admit_def succeeding_def)

lemma calls_succeeding_below:
  "state b = HalfOpen \<Longrightarrow> probe_successes b + length ts < success_threshold cfg \<Longrightarrow>
   calls cfg succeeding ts (b, n) = (b\<lparr> probe_successes := probe_successes b + length ts \<rparr>, n + length ts)"
proof (induction ts arbitrary: b n)
  case Nil
  then show ?case by simp
next
  case (Cons t ts)
  let ?b = "b\<lparr> probe_successes := Suc (probe_successes b) \<rparr>"
  from Cons.prems have step: "record_success cfg t b = ?b"
    by (simp add: record_success_def)
  have "calls cfg succeeding (t # ts) (b, n) = calls cfg succeeding ts (?b, Suc n)"
    using Cons.prems(1) step by (simp add: call_succeeding_half_open)
  also have "\<dots> = (?b\<lparr> probe_successes := probe_successes ?b + length ts \<rparr>, Suc n + length ts)"
    using Cons.prems by (intro Cons.IH) simp_all
  finally show ?case by simp
qed

lemma call_outcome:
  assumes "call cfg now operation (b, w) = (r, b', w')"
    and "\<not> (state b = Open \<and> now - transition_time b < recovery_timeout cfg)"
  shows "r = (if fst (operation w) then Succeeded else Failed) \<and> w' = snd (operation w)"
  using assms
  by (auto simp add: call_def admit_def split: cb_state.splits if_splits prod.splits)

lemma closed_failure_step:
  assumes "call cfg now operation (b, w) = (r, b', w')" "state b = Closed" "r = Failed"
  shows "if failure_threshold cfg \<le> Suc (failure_count b)
         then state b' = Open \<and> transition_time b' = now
         else state b' = Closed"
  using assms
  by (auto simp add: call_def admit_def record_success_def record_failure_def
      split: cb_state.splits if_splits prod.splits option.splits)

lemma probe_from_open:
  assumes "call cfg now operation (b, w) = (r, b', w')" "state b = Open"
  shows "(r = Failed \<longrightarrow> state b' = Open \<and> transition_time b' = now)
       \<and> (r = Succeeded \<longrightarrow>
            (if success_threshold cfg \<le> 1
             then state b' = Closed \<and> failure_count b' = 0 \<and> probe_successes b' = 0
             else state b' = HalfOpen \<and> probe_successes b' = 1))"
  using assms
  by (auto simp add: call_def admit_def record_success_def record_failure_def
      split: cb_state.splits if_splits prod.splits option.splits)

lemma probe_in_half_open:
  assumes "call cfg now operation (b, w) = (r, b', w')" "state b = HalfOpen"
  shows "r \<noteq> CircuitOpen
       \<and> (r = Succeeded \<longrightarrow>
            (if success_threshold cfg \<le> Suc (probe_successes b)
             then state b' = Closed \<and> failure_count b' = 0 \<and> probe_successes b' = 0
             else state b' = HalfOpen \<and> probe_successes b' = Suc (probe_successes b)))"
  using assms
  by (auto simp add: call_def admit_def record_success_def record_failure_def
      split: cb_state.splits if_splits prod.splits option.splits)

lemma enters_half_open:
  assumes "call cfg now operation (b, w) = (r, b', w')" "state b' = HalfOpen"
    "state b \<noteq> HalfOpen"
  shows "state b = Open \<and> recovery_timeout cfg \<le> now - transition_time b \<and> r = Succeeded"
  using assms
  by (auto simp add: call_def admit_def record_success_def record_failure_def
      split: cb_state.splits if_splits prod.splits option.splits)

lemma open_to_closed:
  assumes "0 < success_threshold cfg" "call cfg now operation (b, w) = (r, b', w')"
    "state b = Open" "state b' = Closed"
  shows "r = Succeeded \<and> success_threshold cfg = 1
       \<and> recovery_timeout cfg \<le> now - transition_time b"
  using assms
  by (auto simp add: call_def admit_def record_success_def record_failure_def
      split: cb_state.splits if_splits prod.splits option.splits)

lemma calls_succeeding_close:
  assumes "state b = HalfOpen" "ts \<noteq> []"
    and "probe_successes b + length ts = success_threshold cfg"
  shows "calls cfg succeeding ts (b, n) =
           (\<lparr> state = Closed, failure_count = 0, probe_successes = 0,
              transition_time = last ts \<rparr>, n + length ts)"
proof -
  from assms(2) have split: "ts = butlast ts @ [last ts]" by simp
  have len: "Suc (length (butlast ts)) = length ts" using assms(2) by simp
  let ?b = "b\<lparr> probe_successes := probe_successes b + length (butlast ts) \<rparr>"
  have "probe_successes b + length (butlast ts) < success_threshold cfg"
    using assms(3) len by simp
  with assms(1)
  have "calls cfg succeeding (butlast ts) (b, n) = (?b, n + length (butlast ts))"
    by (rule calls_succeeding_below)
  then have "calls cfg succeeding (butlast ts @ [last ts]) (b, n) =
               snd (call cfg (last ts) succeeding (?b, n + length (butlast ts)))"
    by (simp add: calls_append)
  also have "\<dots> = (record_success cfg (last ts) ?b, Suc (n + length (butlast ts)))"
    using assms(1) by (simp add: call_succeeding_half_open)
  also have "record_success cfg (last ts) ?b =
      \<lparr> state = Closed, failure_count = 0, probe_successes = 0, transition_time = last ts \<rparr>"
    using assms(1,3) len by (simp add: record_success_def)
  finally show ?thesis using split len by simp
qed

lemma call_succeeding_open:
  assumes "state b = Open" "recovery_timeout cfg \<le> t - transition_time b"
  shows "call cfg t succeeding (b, n) =
     (Succeeded,
      record_success cfg t (b\<lparr> state := HalfOpen, probe_successes := 0, transition_time := t \<rparr>),
      Suc n)"
  using assms by (simp add: call_def admit_def succeeding_def)

lemma probes_from_open_below:
  assumes "state b = Open" "us \<noteq> []" "recovery_timeout cfg \<le> hd us - transition_time b"
    and "length us < success_threshold cfg"
  shows "calls cfg succeeding us (b, n) =
     (b\<lparr> state := HalfOpen, probe_successes := length us, transition_time := hd us \<rparr>,
      n + length us)"
proof -
  obtain t us' where us: "us = t # us'" using assms(2) by (cases us) auto
  let ?h = "b\<lparr> state := HalfOpen, probe_successes := 0, transition_time := t \<rparr>"
  let ?h1 = "b\<lparr> state := HalfOpen, probe_successes := Suc 0, transition_time := t \<rparr>"
  have first: "call cfg t succeeding (b, n) = (Succeeded, record_success cfg t ?h, Suc n)"
    using assms(1,3) us by (simp add: call_succeeding_open)
  have h1: "record_success cfg t ?h = ?h1"
    using assms(4) us by (simp add: record_success_def)
  have "calls cfg succeeding us' (?h1, Suc n) =
          (?h1\<lparr> probe_successes := probe_successes ?h1 + length us' \<rparr>, Suc n + length us')"
    using assms(4) us by (intro calls_succeeding_below) simp_all
  then show ?thesis using us first h1 by simp
qed

lemma probes_from_open_close:
  assumes "state b = Open" "us \<noteq> []" "recovery_timeout cfg \<le> hd us - transition_time b"
    and "length us = success_threshold cfg"
  shows "calls cfg succeeding us (b, n) =
           (\<lparr> state = Closed, failure_count = 0, probe_successes = 0,
              transition_time = last us \<rparr>, n + length us)"
proof -
  obtain t us' where us: "us = t # us'" using assms(2) by (cases us) auto
  let ?h = "b\<lparr> state := HalfOpen, probe_successes := 0, transition_time := t \<rparr>"
  let ?h1 = "b\<lparr> state := HalfOpen, probe_successes := Suc 0, transition_time := t \<rparr>"
  have first: "call cfg t succeeding (b, n) = (Succeeded, record_success cfg t ?h, Suc n)"
    using assms(1,3) us by (simp add: call_succeeding_open)
  show ?thesis
  proof (cases "us' = []")
    case True
    with assms(4) us have "record_success cfg t ?h =
        \<lparr> state = Closed, failure_count = 0, probe_successes = 0, transition_time = t \<rparr>"
      by (simp add: record_success_def)
    with True us first show ?thesis by simp
  next
    case False
    with assms(4) us have h1: "record_success cfg t ?h = ?h1"
      by (cases us') (simp_all add: record_success_def)
    have "calls cfg succeeding us' (?h1, Suc n) =
           (\<lparr> state = Closed, failure_count = 0, probe_successes = 0,
              transition_time = last us' \<rparr>, Suc n + length us')"
      using False assms(4) us by (intro calls_succeeding_close) simp_all
    with False us first h1 show ?thesis by simp
  qed
qed

lemma failed_probe_reopens:
  assumes "state h = HalfOpen"
  shows "call cfg t failing (h, n) =
     (Failed, h\<lparr> state := Open, probe_successes := 0, transition_time := t \<rparr>, Suc n)"
  using assms by (simp add: call_def admit_def failing_def record_failure_def)

text \<open>
  Claim C4. With positive thresholds, one guarded call moves a breaker only along the
  cycle, and a call that is not rejected invokes the operation once and reports its outcome.
  In Closed a success resets the failure count and a failure adds one to it, so the count
  is the number of consecutive failures; the breaker leaves Closed for Open only by the
  failure that completes the threshold, and that failure does open it. While Open and
  before the recovery timeout has elapsed a call is rejected with breaker and world
  untouched. Half-Open is entered only from Open, only once the timeout has elapsed, and
  the admitted call is itself the first probe: if it fails the breaker is Open again with
  the timer restarted, if it succeeds the breaker is Half-Open with one probe success, or
  Closed when one success is all the configuration asks for. In Half-Open every call is
  let through; a success closes the circuit, resetting the counters, exactly when it
  completes the success threshold, and a failure reopens it at once, restarting the timer.
  From a new breaker, fewer consecutive failures than the threshold leave it Closed,
  exactly the threshold opens it after that many invocations of the operation, and the
  next call within the recovery timeout is rejected without invoking any operation. From
  an Open breaker whose timeout has elapsed, fewer consecutive successful probes than the
  success threshold leave it Half-Open, where a failing probe reopens it, and exactly that
  many close it.
\<close>

theorem breaker_transitions:
  assumes "0 < failure_threshold cfg" and "0 < success_threshold cfg"
    and "breaker_ok cfg b"
    and "call cfg now operation (b, w) = (r, b', w')"
  shows "breaker_ok cfg b'
   \<and> (\<not> (state b = Open \<and> now - transition_time b < recovery_timeout cfg) \<longrightarrow>
        r = (if fst (operation w) then Succeeded else Failed) \<and> w' = snd (operation w))
   \<and> (state b = Closed \<and> state b' = Open \<longrightarrow>
        r = Failed \<and> Suc (failure_count b) = failure_threshold cfg \<and> transition_time b' = now)
   \<and> (state b = Closed \<and> r = Succeeded \<longrightarrow> state b' = Closed \<and> failure_count b' = 0)
   \<and> (state b = Closed \<and> r = Failed \<longrightarrow> failure_count b' = Suc (failure_count b))
   \<and> (state b = Closed \<and> r = Failed \<longrightarrow>
        (if failure_threshold cfg \<le> Suc (failure_count b)
         then state b' = Open \<and> transition_time b' = now
         else state b' = Closed))
   \<and> (state b = Open \<and> (r \<noteq> CircuitOpen \<or> b' \<noteq> b) \<longrightarrow>
        recovery_timeout cfg \<le> now - transition_time b)
   \<and> (state b = Open \<and> now - transition_time b < recovery_timeout cfg \<longrightarrow>
        r = CircuitOpen \<and> b' = b \<and> w' = w)
   \<and> (state b = Open \<and> r = Failed \<longrightarrow> state b' = Open \<and> transition_time b' = now)
   \<and> (state b = Open \<and> r = Succeeded \<longrightarrow>
        (if success_threshold cfg \<le> 1
         then state b' = Closed \<and> failure_count b' = 0 \<and> probe_successes b' = 0
         else state b' = HalfOpen \<and> probe_successes b' = 1))
   \<and> (state b' = HalfOpen \<and> state b \<noteq> HalfOpen \<longrightarrow>
        state b = Open \<and> recovery_timeout cfg \<le> now - transition_time b \<and> r = Succeeded)
   \<and> (state b = Open \<and> state b' = Closed \<longrightarrow>
        r = Succeeded \<and> success_threshold cfg = 1
        \<and> recovery_timeout cfg \<le> now - transition_time b)
   \<and> (state b = HalfOpen \<longrightarrow> r \<noteq> CircuitOpen)
   \<and> (state b = HalfOpen \<and> state b' = Closed \<longrightarrow>
        r = Succeeded \<and> Suc (probe_successes b) = success_threshold cfg)
   \<and> (state b = HalfOpen \<and> r = Succeeded \<longrightarrow>
        (if success_threshold cfg \<le> Suc (probe_successes b)
         then state b' = Closed \<and> failure_count b' = 0 \<and> probe_successes b' = 0
         else state b' = HalfOpen \<and> probe_successes b' = Suc (probe_successes b)))
   \<and> (state b = HalfOpen \<and> r = Failed \<longrightarrow> state b' = Open \<and> transition_time b' = now)
   \<and> (length ts < failure_threshold cfg \<longrightarrow>
        state (fst (calls cfg failing ts (new_breaker start, 0))) = Closed)
   \<and> (length ts = failure_threshold cfg \<longrightarrow>
        state (fst (calls cfg failing ts (new_breaker start, 0))) = Open
        \<and> snd (calls cfg failing ts (new_breaker start, 0)) = failure_threshold cfg
        \<and> (\<forall>t f. t - last ts < recovery_timeout cfg \<longrightarrow>
              fst (call cfg t f (calls cfg failing ts (new_breaker start, 0))) = CircuitOpen
              \<and> snd (call cfg t f (calls cfg failing ts (new_breaker start, 0)))
                  = calls cfg failing ts (new_breaker start, 0)))
   \<and> (state ob = Open \<and> us \<noteq> [] \<and> recovery_timeout cfg \<le> hd us - transition_time ob
        \<and> length us < success_threshold cfg \<longrightarrow>
        state (fst (calls cfg succeeding us (ob, n))) = HalfOpen
        \<and> probe_successes (fst (calls cfg succeeding us (ob, n))) = length us
        \<and> snd (calls cfg succeeding us (ob, n)) = n + length us
        \<and> (\<forall>t. state (fst (snd (call cfg t failing (calls cfg succeeding us (ob, n))))) = Open
              \<and> transition_time
                   (fst (snd (call cfg t failing (calls cfg succeeding us (ob, n))))) = t))
   \<and> (state ob = Open \<and> us \<noteq> [] \<and> recovery_timeout cfg \<le> hd us - transition_time ob
        \<and> length us = success_threshold cfg \<longrightarrow>
        state (fst (calls cfg succeeding us (ob, n))) = Closed
        \<and> failure_count (fst (calls cfg succeeding us (ob, n))) = 0
        \<and> probe_successes (fst (calls cfg succeeding us (ob, n))) = 0
        \<and> snd (calls cfg succeeding us (ob, n)) = n + length us)
   \<and> (state h = HalfOpen \<and> probe_successes h + length ts < success_threshold cfg \<longrightarrow>
        state (fst (calls cfg succeeding ts (h, n))) = HalfOpen)
   \<and> (state h = HalfOpen \<and> ts \<noteq> []
        \<and> probe_successes h + length ts = success_threshold cfg \<longrightarrow>
        state (fst (calls cfg succeeding ts (h, n))) = Closed)"
proof -
  note c = assms(4)
  have c1: "breaker_ok cfg b'"
    using assms by (rule breaker_ok_call)
  have c2: "\<not> (state b = Open \<and> now - transition_time b < recovery_timeout cfg) \<longrightarrow>
        r = (if fst (operation w) then Succeeded else Failed) \<and> w' = snd (operation w)"
    using call_outcome [OF c] by blast
  have c3: "state b = Closed \<and> state b' = Open \<longrightarrow>
        r = Failed \<and> Suc (failure_count b) = failure_threshold cfg \<and> transition_time b' = now"
    using closed_to_open [OF assms(3) c] by blast
  have c4: "state b = Closed \<and> r = Succeeded \<longrightarrow> state b' = Closed \<and> failure_count b' = 0"
    using closed_counts_consecutive_failures [OF c] by blast
  have c5: "state b = Closed \<and> r = Failed \<longrightarrow> failure_count b' = Suc (failure_count b)"
    using closed_counts_consecutive_failures [OF c] by blast
  have c6: "state b = Closed \<and> r = Failed \<longrightarrow>
        (if failure_threshold cfg \<le> Suc (failure_count b)
         then state b' = Open \<and> transition_time b' = now
         else state b' = Closed)"
    using closed_failure_step [OF c] by blast
  have c7: "state b = Open \<and> (r \<noteq> CircuitOpen \<or> b' \<noteq> b) \<longrightarrow>
        recovery_timeout cfg \<le> now - transition_time b"
    using open_leaves_only_after_timeout [OF c] by blast
  have c8: "state b = Open \<and> now - transition_time b < recovery_timeout cfg \<longrightarrow>
        r = CircuitOpen \<and> b' = b \<and> w' = w"
  proof
    assume "state b = Open \<and> now - transition_time b < recovery_timeout cfg"
    then have "call cfg now operation (b, w) = (CircuitOpen, b, w)"
      by (simp add: open_rejects)
    with c show "r = CircuitOpen \<and> b' = b \<and> w' = w" by simp
  qed
  have c9: "state b = Open \<and> r = Failed \<longrightarrow> state b' = Open \<and> transition_time b' = now"
    using probe_from_open [OF c] by blast
  have c10: "state b = Open \<and> r = Succeeded \<longrightarrow>
        (if success_threshold cfg \<le> 1
         then state b' = Closed \<and> failure_count b' = 0 \<and> probe_successes b' = 0
         else state b' = HalfOpen \<and> probe_successes b' = 1)"
    using probe_from_open [OF c] by blast
  have c11: "state b' = HalfOpen \<and> state b \<noteq> HalfOpen \<longrightarrow>
        state b = Open \<and> recovery_timeout cfg \<le> now - transition_time b \<and> r = Succeeded"
    using enters_half_open [OF c] by blast
  have c12: "state b = Open \<and> state b' = Closed \<longrightarrow>
        r = Succeeded \<and> success_threshold cfg = 1
        \<and> recovery_timeout cfg \<le> now - transition_time b"
    using open_to_closed [OF assms(2) c] by blast
  have c13: "state b = HalfOpen \<longrightarrow> r \<noteq> CircuitOpen"
    using probe_in_half_open [OF c] by blast
  have c14: "state b = HalfOpen \<and> state b' = Closed \<longrightarrow>
        r = Succeeded \<and> Suc (probe_successes b) = success_threshold cfg"
    using half_open_to_closed [OF assms(3) c] by blast
  have c15: "state b = HalfOpen \<and> r = Succeeded \<longrightarrow>
        (if success_threshold cfg \<le> Suc (probe_successes b)
         then state b' = Closed \<and> failure_count b' = 0 \<and> probe_successes b' = 0
         else state b' = HalfOpen \<and> probe_successes b' = Suc (probe_successes b))"
    using probe_in_half_open [OF c] by blast
  have c16: "state b = HalfOpen \<and> r = Failed \<longrightarrow> state b' = Open \<and> transition_time b' = now"
    using half_open_failure [OF c] by blast
  have c17: "length ts < failure_threshold cfg \<longrightarrow>
        state (fst (calls cfg failing ts (new_breaker start, 0))) = Closed"
    using calls_failing_below [of "new_breaker start" ts cfg 0]
    by (simp add: new_breaker_def)
  have c18: "length ts = failure_threshold cfg \<longrightarrow>
        state (fst (calls cfg failing ts (new_breaker start, 0))) = Open
        \<and> snd (calls cfg failing ts (new_breaker start, 0)) = failure_threshold cfg
        \<and> (\<forall>t f. t - last ts < recovery_timeout cfg \<longrightarrow>
              fst (call cfg t f (calls cfg failing ts (new_breaker start, 0))) = CircuitOpen
              \<and> snd (call cfg t f (calls cfg failing ts (new_breaker start, 0)))
                  = calls cfg failing ts (new_breaker start, 0))"
  proof
    assume len: "length ts = failure_threshold cfg"
    let ?o = "\<lparr> state = Open, failure_count = failure_threshold cfg, probe_successes = 0,
                transition_time = last ts \<rparr>"
    have run: "calls cfg failing ts (new_breaker start, 0) = (?o, failure_threshold cfg)"
      using assms(1) len by (rule calls_failing_threshold)
    have rej: "call cfg t f (?o, failure_threshold cfg)
                  = (CircuitOpen, ?o, failure_threshold cfg)"
      if "t - last ts < recovery_timeout cfg" for t and f :: "nat \<Rightarrow> bool \<times> nat"
      using that by (intro open_rejects) simp_all
    show "state (fst (calls cfg failing ts (new_breaker start, 0))) = Open
        \<and> snd (calls cfg failing ts (new_breaker start, 0)) = failure_threshold cfg
        \<and> (\<forall>t f. t - last ts < recovery_timeout cfg \<longrightarrow>
              fst (call cfg t f (calls cfg failing ts (new_breaker start, 0))) = CircuitOpen
              \<and> snd (call cfg t f (calls cfg failing ts (new_breaker start, 0)))
                  = calls cfg failing ts (new_breaker start, 0))"
      by (simp add: run rej)
  qed
  have c19: "state ob = Open \<and> us \<noteq> [] \<and> recovery_timeout cfg \<le> hd us - transition_time ob
        \<and> length us < success_threshold cfg \<longrightarrow>
        state (fst (calls cfg succeeding us (ob, n))) = HalfOpen
        \<and> probe_successes (fst (calls cfg succeeding us (ob, n))) = length us
        \<and> snd (calls cfg succeeding us (ob, n)) = n + length us
        \<and> (\<forall>t. state (fst (snd (call cfg t failing (calls cfg succeeding us (ob, n))))) = Open
              \<and> transition_time
                   (fst (snd (call cfg t failing (calls cfg succeeding us (ob, n))))) = t)"
  proof
    assume a: "state ob = Open \<and> us \<noteq> [] \<and> recovery_timeout cfg \<le> hd us - transition_time ob
        \<and> length us < success_threshold cfg"
    let ?h = "ob\<lparr> state := HalfOpen, probe_successes := length us, transition_time := hd us \<rparr>"
    have run: "calls cfg succeeding us (ob, n) = (?h, n + length us)"
      using a by (intro probes_from_open_below) simp_all
    have reopen: "call cfg t failing (?h, n + length us) =
        (Failed, ?h\<lparr> state := Open, probe_successes := 0, transition_time := t \<rparr>,
         Suc (n + length us))" for t
      by (intro failed_probe_reopens) simp
    show "state (fst (calls cfg succeeding us (ob, n))) = HalfOpen
        \<and> probe_successes (fst (calls cfg succeeding us (ob, n))) = length us
        \<and> snd (calls cfg succeeding us (ob, n)) = n + length us
        \<and> (\<forall>t. state (fst (snd (call cfg t failing (calls cfg succeeding us (ob, n))))) = Open
              \<and> transition_time
                   (fst (snd (call cfg t failing (calls cfg succeeding us (ob, n))))) = t)"
      by (simp add: run reopen)
  qed
  have c20: "state ob = Open \<and> us \<noteq> [] \<and> recovery_timeout cfg \<le> hd us - transition_time ob
        \<and> length us = success_threshold cfg \<longrightarrow>
        state (fst (calls cfg succeeding us (ob, n))) = Closed
        \<and> failure_count (fst (calls cfg succeeding us (ob, n))) = 0
        \<and> probe_successes (fst (calls cfg succeeding us (ob, n))) = 0
        \<and> snd (calls cfg succeeding us (ob, n)) = n + length us"
  proof
    assume a: "state ob = Open \<and> us \<noteq> [] \<and> recovery_timeout cfg \<le> hd us - transition_time ob
        \<and> length us = success_threshold cfg"
    have run: "calls cfg succeeding us (ob, n) =
           (\<lparr> state = Closed, failure_count = 0, probe_successes = 0,
              transition_time = last us \<rparr>, n + length us)"
      using a by (intro probes_from_open_close) simp_all
    show "state (fst (calls cfg succeeding us (ob, n))) = Closed
        \<and> failure_count (fst (calls cfg succeeding us (ob, n))) = 0
        \<and> probe_successes (fst (calls cfg succeeding us (ob, n))) = 0
        \<and> snd (calls cfg succeeding us (ob, n)) = n + length us"
      by (simp add: run)
  qed
  have c21: "state h = HalfOpen \<and> probe_successes h + length ts < success_threshold cfg \<longrightarrow>
        state (fst (calls cfg succeeding ts (h, n))) = HalfOpen"
    using calls_succeeding_below [of h ts cfg n] by simp
  have c22: "state h = HalfOpen \<and> ts \<noteq> []
        \<and> probe_successes h + length ts = success_threshold cfg \<longrightarrow>
        state (fst (calls cfg succeeding ts (h, n))) = Closed"
    using calls_succeeding_close [of h ts cfg n] by simp
  show ?thesis
    by (intro conjI) (fact c1 c2 c3 c4 c5 c6 c7 c8 c9 c10 c11 c12 c13 c14 c15 c16 c17 c18
        c19 c20 c21 c22)+
qed

text \<open>
  The statement at the README's configuration, over one cycle: the third consecutive
  failure opens the breaker, and a call five seconds later is rejected with the call
  counter still at three; once thirty seconds have passed a first successful probe leaves
  the breaker Half-Open, a second one closes it, and a failing second probe would have
  reopened it.
\<close>

theorem breaker_transitions_witness:
  "0 < failure_threshold sample_config \<and> 0 < success_threshold sample_config
   \<and> breaker_ok sample_config
        \<lparr> state = Closed, failure_count = 2, probe_successes = 0, transition_time = 0 \<rparr>
   \<and> call sample_config 3 failing
        (\<lparr> state = Closed, failure_count = 2, probe_successes = 0, transition_time = 0 \<rparr>, 2)
       = (Failed,
          \<lparr> state = Open, failure_count = 3, probe_successes = 0, transition_time = 3 \<rparr>, 3)
   \<and> breaker_ok sample_config
        \<lparr> state = Open, failure_count = 3, probe_successes = 0, transition_time = 3 \<rparr>
   \<and> state (fst (calls sample_config failing [1, 2] (new_breaker 0, 0))) = Closed
   \<and> state (fst (calls sample_config failing [1, 2, 3] (new_breaker 0, 0))) = Open
   \<and> snd (calls sample_config failing [1, 2, 3] (new_breaker 0, 0)) = 3
   \<and> call sample_config 8 succeeding (calls sample_config failing [1, 2, 3] (new_breaker 0, 0))
       = (CircuitOpen, calls sample_config failing [1, 2, 3] (new_breaker 0, 0))
   \<and> breaker_ok sample_config
        \<lparr> state = HalfOpen, failure_count = 3, probe_successes = 1, transition_time = 40 \<rparr>
   \<and> call sample_config 41 succeeding
        (\<lparr> state = HalfOpen, failure_count = 3, probe_successes = 1, transition_time = 40 \<rparr>, 4)
       = (Succeeded,
          \<lparr> state = Closed, failure_count = 0, probe_successes = 0, transition_time = 41 \<rparr>, 5)
   \<and> state (fst (calls sample_config succeeding [40]
        (\<lparr> state = Open, failure_count = 3, probe_successes = 0, transition_time = 3 \<rparr>, 3)))
       = HalfOpen
   \<and> state (fst (snd (call sample_config 41 failing (calls sample_config succeeding [40]
        (\<lparr> state = Open, failure_count = 3, probe_successes = 0, transition_time = 3 \<rparr>, 3)))))
       = Open
   \<and> state (fst (calls sample_config succeeding [40, 41]
        (\<lparr> state = Open, failure_count = 3, probe_successes = 0, transition_time = 3 \<rparr>, 3)))
       = Closed
   \<and> snd (calls sample_config succeeding [40, 41]
        (\<lparr> state = Open, failure_count = 3, probe_successes = 0, transition_time = 3 \<rparr>, 3))
       = 5"
proof -
  let ?b = "\<lparr> state = Closed, failure_count = 2, probe_successes = 0, transition_time = 0 \<rparr>"
  let ?b' = "\<lparr> state = Open, failure_count = 3, probe_successes = 0, transition_time = 3 \<rparr>"
  let ?h = "\<lparr> state = HalfOpen, failure_count = 3, probe_successes = 1, transition_time = 40 \<rparr>"
  let ?h' = "\<lparr> state = Closed, failure_count = 0, probe_successes = 0, transition_time = 41 \<rparr>"
  have f: "0 < failure_threshold sample_config" and s: "0 < success_threshold sample_config"
    by (simp_all add: sample_config_def)
  have ok: "breaker_ok sample_config ?b"
    by (simp add: breaker_ok_def sample_config_def)
  have c: "call sample_config 3 failing (?b, 2) = (Failed, ?b', 3)"
    by (simp add: call_def admit_def failing_def record_failure_def sample_config_def)
  have okh: "breaker_ok sample_config ?h"
    by (simp add: breaker_ok_def sample_config_def)
  have ch: "call sample_config 41 succeeding (?h, 4) = (Succeeded, ?h', 5)"
    by (simp add: call_def admit_def succeeding_def record_success_def sample_config_def)
  note step = breaker_transitions [OF f s ok c, where ts = "[1, 2]" and start = 0]
  note run = breaker_transitions [OF f s ok c, where ts = "[1, 2, 3]" and start = 0]
  note probe1 = breaker_transitions [OF f s okh ch, where ob = ?b' and us = "[40]" and n = 3]
  note probe2 = breaker_transitions [OF f s okh ch, where ob = ?b' and us = "[40, 41]"
      and n = 3]
  have ok': "breaker_ok sample_config ?b'"
    by (rule step [THEN conjunct1])
  have "length [1, 2 :: int] < failure_threshold sample_config"
    by (simp add: sample_config_def)
  then have two: "state (fst (calls sample_config failing [1, 2] (new_breaker 0, 0))) = Closed"
    by (rule step [THEN conjunct2, THEN conjunct2, THEN conjunct2, THEN conjunct2, THEN conjunct2, THEN conjunct2, THEN conjunct2, THEN conjunct2, THEN conjunct2, THEN conjunct2, THEN conjunct2, THEN conjunct2, THEN conjunct2, THEN conjunct2, THEN conjunct2, THEN conjunct2, THEN conjunct1, THEN mp])
  have l: "length [1, 2, 3 :: int] = failure_threshold sample_config"
    by (simp add: sample_config_def)
  note opened = run [THEN conjunct2, THEN conjunct2, THEN conjunct2, THEN conjunct2, THEN conjunct2, THEN conjunct2, THEN conjunct2, THEN conjunct2, THEN conjunct2, THEN conjunct2, THEN conjunct2, THEN conjunct2, THEN conjunct2, THEN conjunct2, THEN conjunct2, THEN conjunct2, THEN conjunct2, THEN conjunct1, THEN mp, OF l]
  have three: "state (fst (calls sample_config failing [1, 2, 3] (new_breaker 0, 0))) = Open
     \<and> snd (calls sample_config failing [1, 2, 3] (new_breaker 0, 0)) = 3"
    using opened by (simp add: sample_config_def)
  have early: "(8 :: int) - last [1, 2, 3] < recovery_timeout sample_config"
    by (simp add: sample_config_def)
  have "fst (call sample_config 8 succeeding
            (calls sample_config failing [1, 2, 3] (new_breaker 0, 0))) = CircuitOpen
     \<and> snd (call sample_config 8 succeeding
            (calls sample_config failing [1, 2, 3] (new_breaker 0, 0)))
         = calls sample_config failing [1, 2, 3] (new_breaker 0, 0)"
    using opened [THEN conjunct2, THEN conjunct2, THEN spec, THEN spec, THEN mp, OF early] .
  then have rej: "call sample_config 8 succeeding
        (calls sample_config failing [1, 2, 3] (new_breaker 0, 0))
       = (CircuitOpen, calls sample_config failing [1, 2, 3] (new_breaker 0, 0))"
    by (metis prod.collapse)
  have p1: "state ?b' = Open \<and> [40 :: int] \<noteq> []
      \<and> recovery_timeout sample_config \<le> hd [40] - transition_time ?b'
      \<and> length [40 :: int] < success_threshold sample_config"
    by (simp add: sample_config_def)
  have p2: "state ?b' = Open \<and> [40, 41 :: int] \<noteq> []
      \<and> recovery_timeout sample_config \<le> hd [40, 41] - transition_time ?b'
      \<and> length [40, 41 :: int] = success_threshold sample_config"
    by (simp add: sample_config_def)
  note probing = probe1 [THEN conjunct2, THEN conjunct2, THEN conjunct2, THEN conjunct2, THEN conjunct2, THEN conjunct2, THEN conjunct2, THEN conjunct2, THEN conjunct2, THEN conjunct2, THEN conjunct2, THEN conjunct2, THEN conjunct2, THEN conjunct2, THEN conjunct2, THEN conjunct2, THEN conjunct2, THEN conjunct2, THEN conjunct1, THEN mp, OF p1]
  note closing = probe2 [THEN conjunct2, THEN conjunct2, THEN conjunct2, THEN conjunct2, THEN conjunct2, THEN conjunct2, THEN conjunct2, THEN conjunct2, THEN conjunct2, THEN conjunct2, THEN conjunct2, THEN conjunct2, THEN conjunct2, THEN conjunct2, THEN conjunct2, THEN conjunct2, THEN conjunct2, THEN conjunct2, THEN conjunct2, THEN conjunct1, THEN mp, OF p2]
  have half: "state (fst (calls sample_config succeeding [40] (?b', 3))) = HalfOpen
     \<and> state (fst (snd (call sample_config 41 failing
           (calls sample_config succeeding [40] (?b', 3))))) = Open"
    using probing by blast
  have closed: "state (fst (calls sample_config succeeding [40, 41] (?b', 3))) = Closed
     \<and> snd (calls sample_config succeeding [40, 41] (?b', 3)) = 5"
    using closing by simp
  from f s ok c ok' two three rej okh ch half closed show ?thesis by simp
qed


section \<open>Retry executor: backoff\<close>

lemma backoff_delay_range:
  assumes "0 < baseDelay" "0 \<le> u" "u < 1"
  shows "baseDelay * 2 ^ (n - 1) \<le> backoff_delay baseDelay n u
       \<and> backoff_delay baseDelay n u < baseDelay * 2 ^ (n - 1) + baseDelay"
  using assms by (simp add: backoff_delay_def random_jitter_def)

lemma attempts_length: "length (snd (attempts operation baseDelay draw n k)) \<le> k"
  by (induction k arbitrary: n) (auto simp add: Let_def le_SucI split: sum.splits)

lemma attempts_delays:
  "i < length (snd (attempts operation baseDelay draw n k)) \<Longrightarrow>
   snd (attempts operation baseDelay draw n k) ! i = backoff_delay baseDelay (n + i) (draw (n + i))"
proof (induction k arbitrary: n i)
  case 0
  then show ?case by simp
next
  case (Suc k)
  show ?case
  proof (cases "operation n")
    case (Inr v)
    with Suc.prems show ?thesis by simp
  next
    case (Inl e)
    show ?thesis
    proof (cases "retryable e")
      case False
      with Inl Suc.prems show ?thesis by simp
    next
      case True
      show ?thesis
      proof (cases i)
        case 0
        with Inl True show ?thesis by (simp add: Let_def)
      next
        case (Suc j)
        with Inl True Suc.prems
        have "j < length (snd (attempts operation baseDelay draw (Suc n) k))"
          by (simp add: Let_def)
        then have "snd (attempts operation baseDelay draw (Suc n) k) ! j =
                   backoff_delay baseDelay (Suc n + j) (draw (Suc n + j))"
          by (rule Suc.IH)
        with Inl True Suc show ?thesis by (simp add: Let_def)
      qed
    qed
  qed
qed

lemma attempts_all_timeouts:
  "attempts (\<lambda>n. Inl TimeoutError) baseDelay draw n k =
     (Inl TimeoutError, map (\<lambda>i. backoff_delay baseDelay i (draw i)) [n..<n + k])"
  by (induction k arbitrary: n) (simp_all add: upt_rec Let_def)

text \<open>
  Claim C5. With a positive base delay and a jitter source that draws from \<open>[0, 1)\<close>, an
  execution with at least one attempt allowed returns, having slept fewer delays than
  attempts, and the delay before retry \<open>n\<close> is \<open>baseDelay * 2^(n-1)\<close> plus a jitter that
  is at least zero and less than the base delay. With three attempts, a base delay of 500
  and a store that always times out, the delays before attempts 2 and 3 lie in
  \<open>[500, 1000)\<close> and \<open>[1000, 1500)\<close>.
\<close>

theorem backoff_delay_bounds:
  assumes "0 < baseDelay" and "\<forall>k. 0 \<le> draw k \<and> draw k < 1" and "0 < maxAttempts"
  shows "\<exists>r ds. execute operation maxAttempts baseDelay draw = Some (r, ds)
      \<and> length ds < maxAttempts
      \<and> (\<forall>i<length ds.
            ds ! i = baseDelay * 2 ^ i + random_jitter 0 baseDelay (draw (Suc i))
            \<and> 0 \<le> random_jitter 0 baseDelay (draw (Suc i))
            \<and> random_jitter 0 baseDelay (draw (Suc i)) < baseDelay)
      \<and> (\<exists>d2 d3. execute (\<lambda>n. Inl TimeoutError :: op_error + 'b) 3 500 draw
                    = Some (Inl TimeoutError, [d2, d3])
            \<and> 500 \<le> d2 \<and> d2 < 500 + 500 \<and> 500 * 2 \<le> d3 \<and> d3 < 500 * 2 + 500)"
proof -
  obtain r ds where res: "attempts operation baseDelay draw 1 (maxAttempts - 1) = (r, ds)"
    by (cases "attempts operation baseDelay draw 1 (maxAttempts - 1)") blast
  with assms(3) have ex: "execute operation maxAttempts baseDelay draw = Some (r, ds)"
    by (simp add: execute_def)
  have "length ds \<le> maxAttempts - 1"
    using attempts_length [of operation baseDelay draw 1 "maxAttempts - 1"] res by simp
  with assms(3) have len: "length ds < maxAttempts" by simp
  have each: "ds ! i = baseDelay * 2 ^ i + random_jitter 0 baseDelay (draw (Suc i))
          \<and> 0 \<le> random_jitter 0 baseDelay (draw (Suc i))
          \<and> random_jitter 0 baseDelay (draw (Suc i)) < baseDelay" if "i < length ds" for i
  proof -
    have "ds ! i = backoff_delay baseDelay (Suc i) (draw (Suc i))"
      using attempts_delays [of i operation baseDelay draw 1 "maxAttempts - 1"] that res
      by simp
    moreover have "0 \<le> draw (Suc i)" "draw (Suc i) < 1" using assms(2) by auto
    ultimately show ?thesis using assms(1)
      by (simp add: backoff_delay_def random_jitter_def)
  qed
  let ?d2 = "backoff_delay 500 (Suc 0) (draw (Suc 0))"
  let ?d3 = "backoff_delay 500 (Suc (Suc 0)) (draw (Suc (Suc 0)))"
  have run: "execute (\<lambda>n. Inl TimeoutError :: op_error + 'b) 3 500 draw
               = Some (Inl TimeoutError, [?d2, ?d3])"
    by (simp add: execute_def attempts_all_timeouts upt_rec)
  have "0 \<le> draw (Suc 0)" "draw (Suc 0) < 1" "0 \<le> draw (Suc (Suc 0))"
    "draw (Suc (Suc 0)) < 1"
    using assms(2) by auto
  then have "500 \<le> ?d2 \<and> ?d2 < 500 + 500 \<and> 500 * 2 \<le> ?d3 \<and> ?d3 < 500 * 2 + 500"
    by (simp add: backoff_delay_def random_jitter_def)
  with run ex len each show ?thesis by blast
qed

text \<open>
  With the jitter source fixed at one half, three attempts and a base delay of 500, a
  store that always times out is retried after 750 and after 1250.
\<close>

theorem backoff_delay_bounds_witness:
  "(0 :: real) < 500 \<and> (\<forall>k :: nat. (0 :: real) \<le> 1 / 2 \<and> (1 :: real) / 2 < 1)
   \<and> (0 :: nat) < 3
   \<and> execute (\<lambda>n. Inl TimeoutError :: op_error + unit) 3 500 (\<lambda>k. 1 / 2)
       = Some (Inl TimeoutError, [750, 1250])"
proof -
  have h: "\<forall>k :: nat. (0 :: real) \<le> (\<lambda>k. 1 / 2) k \<and> (\<lambda>k. 1 / 2) k < (1 :: real)" by simp
  obtain r ds where
    ex: "execute (\<lambda>n. Inl TimeoutError :: op_error + unit) 3 500 (\<lambda>k. 1 / 2) = Some (r, ds)"
    and each: "\<forall>i<length ds. ds ! i = 500 * 2 ^ i + random_jitter 0 500 (1 / 2)"
    using backoff_delay_bounds
      [of 500 "\<lambda>k. 1 / 2" 3 "\<lambda>n. Inl TimeoutError :: op_error + unit", OF _ h]
    by auto
  have run: "execute (\<lambda>n. Inl TimeoutError :: op_error + unit) 3 500 (\<lambda>k. 1 / 2)
      = Some (Inl TimeoutError, [backoff_delay 500 (Suc 0) (1 / 2),
                                backoff_delay 500 (Suc (Suc 0)) (1 / 2)])"
    by (simp add: execute_def attempts_all_timeouts upt_rec)
  with ex have ds: "ds = [backoff_delay 500 (Suc 0) (1 / 2),
                          backoff_delay 500 (Suc (Suc 0)) (1 / 2)]" by simp
  from ds have "0 < length ds" and "1 < length ds" by simp_all
  with each have "ds ! 0 = 500 * 2 ^ 0 + random_jitter 0 500 (1 / 2)"
    and "ds ! 1 = 500 * 2 ^ 1 + random_jitter 0 500 (1 / 2)"
    by blast+
  then have "ds ! 0 = 750" and "ds ! 1 = 1250"
    by (simp_all add: random_jitter_def)
  with ds have "ds = [750, 1250]" by simp
  with ex run show ?thesis by simp
qed


section \<open>Cache layer: bound and eviction\<close>

lemma remove_key_keys: "map fst (remove_key k es) = filter (\<lambda>x. x \<noteq> k) (map fst es)"
  by (induction es) (simp_all add: remove_key_def)

lemma remove_key_length: "k \<in> fst ` set es \<Longrightarrow> length (remove_key k es) < length es"
proof -
  assume "k \<in> fst ` set es"
  then obtain ke where "ke \<in> set es" "\<not> fst ke \<noteq> k" by auto
  then show ?thesis unfolding remove_key_def by (rule length_filter_less)
qed

lemma put_max_size [simp]: "max_size (cache_put k v ttl now c) = max_size c"
  by (simp add: cache_put_def Let_def)




lemma put_all_max_size [simp]: "max_size (put_all ps c) = max_size c"
  by (induction ps c rule: put_all.induct) simp_all







lemma empty_cache_ok: "cache_ok t (empty_cache m)"
  by (simp add: cache_ok_def empty_cache_def cache_keys_def)

lemma sorted_rev_map_filter:
  "sorted (rev (map f es)) \<Longrightarrow> sorted (rev (map f (filter P es)))"
proof -
  assume "sorted (rev (map f es))"
  then have "sorted (map f (rev es))" by (simp add: rev_map)
  then have "sorted (map f (filter P (rev es)))" by (rule sorted_filter)
  then show ?thesis by (simp add: rev_map rev_filter)
qed



lemma list_all_filter: "list_all P es \<Longrightarrow> list_all P (filter Q es)"
  by (induction es) simp_all


lemma list_all_mono_le:
  "list_all (\<lambda>ke. ce_last_access (snd ke) \<le> t) es \<Longrightarrow> t \<le> now \<Longrightarrow>
   list_all (\<lambda>ke. ce_last_access (snd ke) \<le> (now::int)) es"
  by (induction es) auto

lemma sorted_rev_snoc_now:
  assumes "sorted (rev (map f es))" "list_all (\<lambda>ke. f ke \<le> (now::int)) es" "f new = now"
  shows "sorted (rev (map f (new # es)))"
  using assms by (simp add: sorted_append list_all_iff)


lemma get_cache_ok:
  assumes "cache_ok t c" "t \<le> now"
  shows "cache_ok now (snd (cache_get k now c))"
proof -
  let ?f = "\<lambda>ke::'a \<times> 'b cache_entry. ce_last_access (snd ke)"
  from assms have srt: "sorted (rev (map ?f (entries c)))"
    and le: "list_all (\<lambda>ke. ?f ke \<le> now) (entries c)"
    and dist: "distinct (cache_keys c)" and len: "length (entries c) \<le> max_size c"
    by (auto simp add: cache_ok_def intro: list_all_mono_le)
  have s': "sorted (rev (map ?f (remove_key k (entries c))))"
    using srt by (simp add: remove_key_def sorted_rev_map_filter)
  have l': "list_all (\<lambda>ke. ?f ke \<le> now) (remove_key k (entries c))"
    using le by (simp add: remove_key_def list_all_filter)
  have d': "distinct (map fst (remove_key k (entries c)))"
    using dist by (simp add: remove_key_keys cache_keys_def)
  have k': "k \<notin> set (map fst (remove_key k (entries c)))"
    by (simp add: remove_key_keys)
  have n': "length (remove_key k (entries c)) \<le> length (entries c)"
    by (simp add: remove_key_def)
  show ?thesis
  proof (cases "map_of (entries c) k")
    case None
    then show ?thesis using assms srt le dist len by (simp add: cache_get_def cache_ok_def cache_keys_def)
  next
    case (Some e)
    then have "k \<in> fst ` set (entries c)" by (metis map_of_eq_None_iff option.distinct(1))
    then have lt: "length (remove_key k (entries c)) < length (entries c)" by (rule remove_key_length)
    show ?thesis
    proof (cases "ce_expires_at e \<le> now")
      case True
      then show ?thesis using Some s' l' d' n' len
        by (simp add: cache_get_def cache_ok_def cache_keys_def)
    next
      case False
      have "sorted (rev (map ?f ((k, e\<lparr> ce_last_access := now \<rparr>) # remove_key k (entries c))))"
        using s' l' by (rule sorted_rev_snoc_now) simp
      then show ?thesis using False Some l' d' k' lt len
        by (simp add: cache_get_def cache_ok_def cache_keys_def)
    qed
  qed
qed







end
